theory Spec2Isabelle
  imports Complex_Main "HOL-Library.AList"
begin

section \<open>The model of JavaScript values the functions use\<close>

subsection \<open>Numbers and dates\<close>

text \<open>
  A JavaScript number that is computed from dates is either an integer or NaN; it is modelled as
  \<open>int option\<close> with \<open>None\<close> for NaN, and arithmetic that propagates NaN. A \<open>Date\<close> object
  is its time value: milliseconds since 1970-01-01T00:00:00Z, or NaN for an Invalid Date, so
  it is an \<open>int option\<close> too. Time values are clipped to the range of 100,000,000 days around
  the epoch (\<open>TimeClip\<close>). Local time is UTC plus a constant offset \<open>tza\<close> of the host
  (no daylight-saving rule), which every function that reads or writes local fields takes as
  its first argument. The definitions below follow the abstract operations of ECMA-262
  (Day, TimeWithinDay, DayFromYear, YearFromTime, MonthFromTime, DateFromTime, WeekDay,
  MakeTime, MakeDay, MakeDate, TimeClip).
\<close>

type_synonym Number = "int option"
type_synonym Date = "int option"

definition num_add :: "Number \<Rightarrow> Number \<Rightarrow> Number" where
  "num_add a b = (case (a, b) of (Some x, Some y) \<Rightarrow> Some (x + y) | _ \<Rightarrow> None)"

definition num_sub :: "Number \<Rightarrow> Number \<Rightarrow> Number" where
  "num_sub a b = (case (a, b) of (Some x, Some y) \<Rightarrow> Some (x - y) | _ \<Rightarrow> None)"

definition msPerDay :: int where "msPerDay = 86400000"
definition msPerHour :: int where "msPerHour = 3600000"
definition msPerMinute :: int where "msPerMinute = 60000"
definition msPerSecond :: int where "msPerSecond = 1000"

definition maxTime :: int where "maxTime = 8640000000000000"

definition Day :: "int \<Rightarrow> int" where
  "Day t = t div msPerDay"

definition TimeWithinDay :: "int \<Rightarrow> int" where
  "TimeWithinDay t = t mod msPerDay"

definition DaysInYear :: "int \<Rightarrow> int" where
  "DaysInYear y = (if y mod 4 \<noteq> 0 then 365 else if y mod 100 \<noteq> 0 then 366
                   else if y mod 400 \<noteq> 0 then 365 else 366)"

definition DayFromYear :: "int \<Rightarrow> int" where
  "DayFromYear y =
     365 * (y - 1970) + (y - 1969) div 4 - (y - 1901) div 100 + (y - 1601) div 400"

text \<open>Facts of integer division that the termination of the year search needs.\<close>

lemma div_succ:
  fixes a n :: int
  assumes "0 < n"
  shows "(a + 1) div n = a div n + (if (a + 1) mod n = 0 then 1 else 0)"
proof (cases "(a + 1) mod n = 0")
  case True
  then obtain q where q: "a + 1 = n * q" by auto
  then have "a = n * (q - 1) + (n - 1)" by (simp add: algebra_simps)
  then have "a div n = q - 1" using assms by simp
  then show ?thesis using True q assms by simp
next
  case False
  have lt: "a mod n + 1 < n"
    using assms False
    by (metis add.commute linorder_neqE_linordered_idom linorder_not_less
        mod_add_right_eq mod_self pos_mod_bound zle_add1_eq_le)
  have ge: "0 \<le> a mod n + 1" using assms by (simp add: add_nonneg_nonneg)
  have "a + 1 = (a mod n + 1) + (a div n) * n" by (simp add: algebra_simps)
  then have "(a + 1) div n = ((a mod n + 1) + (a div n) * n) div n" by simp
  also have "\<dots> = (a mod n + 1) div n + a div n"
    using assms div_mult_self1[of n "a mod n + 1" "a div n"] by simp
  also have "(a mod n + 1) div n = 0" using lt ge by (simp add: div_pos_pos_trivial)
  finally show ?thesis using False by simp
qed

lemma mod_shift: "(y - k * n) mod n = y mod n" for y k n :: int
  by (metis mod_mult_self1 add.commute diff_conv_add_uminus mult_minus_left mult.commute)

lemma mod_100_4: "y mod 100 = 0 \<Longrightarrow> y mod 4 = 0" for y :: int
proof -
  assume "y mod 100 = 0"
  then have "(100::int) dvd y" by auto
  moreover have "(4::int) dvd 100" by simp
  ultimately have "(4::int) dvd y" using dvd_trans by blast
  then show ?thesis by auto
qed

lemma mod_400_100: "y mod 400 = 0 \<Longrightarrow> y mod 100 = 0" for y :: int
proof -
  assume "y mod 400 = 0"
  then have "(400::int) dvd y" by auto
  moreover have "(100::int) dvd 400" by simp
  ultimately have "(100::int) dvd y" using dvd_trans by blast
  then show ?thesis by auto
qed

lemma DayFromYear_step:
  fixes A B C y :: int and p4 p100 p400 :: bool
  assumes "A' = A + (if p4 then 1 else 0)" "B' = B + (if p100 then 1 else 0)"
    "C' = C + (if p400 then 1 else 0)" "p100 \<longrightarrow> p4" "p400 \<longrightarrow> p100"
  shows "365 * (y - 1969) + A' - B' + C' = 365 * (y - 1970) + A - B + C +
    (if \<not> p4 then 365 else if \<not> p100 then 366 else if \<not> p400 then 365 else 366)"
  using assms by (cases p4; cases p100; cases p400) simp_all

lemma DayFromYear_Suc: "DayFromYear (y + 1) = DayFromYear y + DaysInYear y"
proof -
  have a: "(y - 1968) div 4 = (y - 1969) div 4 + (if y mod 4 = 0 then 1 else 0)"
    using div_succ[of 4 "y - 1969"] mod_shift[of y 492 4] by simp
  have b: "(y - 1900) div 100 = (y - 1901) div 100 + (if y mod 100 = 0 then 1 else 0)"
    using div_succ[of 100 "y - 1901"] mod_shift[of y 19 100] by simp
  have c: "(y - 1600) div 400 = (y - 1601) div 400 + (if y mod 400 = 0 then 1 else 0)"
    using div_succ[of 400 "y - 1601"] mod_shift[of y 4 400] by simp
  have s: "DayFromYear (y + 1) =
      365 * (y - 1969) + (y - 1968) div 4 - (y - 1900) div 100 + (y - 1600) div 400"
    by (simp add: DayFromYear_def)
  have d: "y mod 100 = 0 \<longrightarrow> y mod 4 = 0" by (rule impI) (rule mod_100_4)
  have e: "y mod 400 = 0 \<longrightarrow> y mod 100 = 0" by (rule impI) (rule mod_400_100)
  show ?thesis
    unfolding s unfolding DayFromYear_def DaysInYear_def
    by (rule DayFromYear_step[OF a b c d e])
qed

text \<open>
  \<open>YearFromTime(t)\<close> is the largest year \<open>y\<close> with \<open>DayFromYear(y) \<le> Day(t)\<close>. It is found by
  a search upwards from a year that is not after it.
\<close>

function YearSearch :: "int \<Rightarrow> int \<Rightarrow> int" where
  "YearSearch d y = (if DayFromYear (y + 1) \<le> d then YearSearch d (y + 1) else y)"
  by pat_completeness auto
termination
proof (relation "measure (\<lambda>(d, y). nat (d + 1 - DayFromYear (y + 1)))")
  show "wf (measure (\<lambda>(d, y). nat (d + 1 - DayFromYear (y + 1))))" by simp
next
  fix d y :: int
  assume a: "DayFromYear (y + 1) \<le> d"
  have "DayFromYear (y + 1 + 1) = DayFromYear (y + 1) + DaysInYear (y + 1)"
    by (rule DayFromYear_Suc)
  moreover have "365 \<le> DaysInYear (y + 1)" by (simp add: DaysInYear_def)
  ultimately show "((d, y + 1), (d, y)) \<in> measure (\<lambda>(d, y). nat (d + 1 - DayFromYear (y + 1)))"
    using a by simp
qed

declare YearSearch.simps [simp del]

definition YearFromDay :: "int \<Rightarrow> int" where
  "YearFromDay d = YearSearch d (1970 + (if 0 \<le> d then d div 366 else d div 365))"

definition YearFromTime :: "int \<Rightarrow> int" where
  "YearFromTime t = YearFromDay (Day t)"

definition InLeapYear :: "int \<Rightarrow> int" where
  "InLeapYear t = (if DaysInYear (YearFromTime t) = 366 then 1 else 0)"

definition DayWithinYear :: "int \<Rightarrow> int" where
  "DayWithinYear t = Day t - DayFromYear (YearFromTime t)"

text \<open>The day number within the year on which month \<open>m\<close> (0 = January) starts.\<close>

definition monthStart :: "int \<Rightarrow> int \<Rightarrow> int" where
  "monthStart m leap =
     (if m = 0 then 0 else if m = 1 then 31 else if m = 2 then 59 + leap
      else if m = 3 then 90 + leap else if m = 4 then 120 + leap
      else if m = 5 then 151 + leap else if m = 6 then 181 + leap
      else if m = 7 then 212 + leap else if m = 8 then 243 + leap
      else if m = 9 then 273 + leap else if m = 10 then 304 + leap
      else 334 + leap)"

definition MonthFromTime :: "int \<Rightarrow> int" where
  "MonthFromTime t =
     (let d = DayWithinYear t; leap = InLeapYear t in
      if d < 31 then 0 else if d < 59 + leap then 1 else if d < 90 + leap then 2
      else if d < 120 + leap then 3 else if d < 151 + leap then 4
      else if d < 181 + leap then 5 else if d < 212 + leap then 6
      else if d < 243 + leap then 7 else if d < 273 + leap then 8
      else if d < 304 + leap then 9 else if d < 334 + leap then 10 else 11)"

definition DateFromTime :: "int \<Rightarrow> int" where
  "DateFromTime t = DayWithinYear t - monthStart (MonthFromTime t) (InLeapYear t) + 1"

definition WeekDay :: "int \<Rightarrow> int" where
  "WeekDay t = (Day t + 4) mod 7"





definition MakeTime :: "int \<Rightarrow> int \<Rightarrow> int \<Rightarrow> int \<Rightarrow> int" where
  "MakeTime hour minute sec ms =
     hour * msPerHour + minute * msPerMinute + sec * msPerSecond + ms"

definition MakeDay :: "int \<Rightarrow> int \<Rightarrow> int \<Rightarrow> int" where
  "MakeDay year month date =
     (let ym = year + month div 12; mn = month mod 12 in
      DayFromYear ym + monthStart mn (if DaysInYear ym = 366 then 1 else 0) + date - 1)"

definition MakeDate :: "int \<Rightarrow> int \<Rightarrow> int" where
  "MakeDate day time = day * msPerDay + time"

definition TimeClip :: "int \<Rightarrow> Date" where
  "TimeClip t = (if maxTime < \<bar>t\<bar> then None else Some t)"

definition LocalTime :: "int \<Rightarrow> int \<Rightarrow> int" where
  "LocalTime tza t = t + tza"

definition UTC :: "int \<Rightarrow> int \<Rightarrow> int" where
  "UTC tza t = t - tza"

text \<open>The methods of \<open>Date.prototype\<close> that the sources call.\<close>

definition getTime :: "Date \<Rightarrow> Number" where
  "getTime d = d"

definition getDay :: "int \<Rightarrow> Date \<Rightarrow> Number" where
  "getDay tza d = map_option (\<lambda>t. WeekDay (LocalTime tza t)) d"

definition getDate :: "int \<Rightarrow> Date \<Rightarrow> Number" where
  "getDate tza d = map_option (\<lambda>t. DateFromTime (LocalTime tza t)) d"

definition getMonth :: "int \<Rightarrow> Date \<Rightarrow> Number" where
  "getMonth tza d = map_option (\<lambda>t. MonthFromTime (LocalTime tza t)) d"

definition getFullYear :: "int \<Rightarrow> Date \<Rightarrow> Number" where
  "getFullYear tza d = map_option (\<lambda>t. YearFromTime (LocalTime tza t)) d"





text \<open>\<open>d.setDate(dt)\<close> and \<open>d.setHours(h, m, s, ms)\<close>, as the new time value of \<open>d\<close>.\<close>

definition setDate :: "int \<Rightarrow> Date \<Rightarrow> Number \<Rightarrow> Date" where
  "setDate tza d dt =
     (case d of None \<Rightarrow> None
      | Some t0 \<Rightarrow>
          (case dt of None \<Rightarrow> None
           | Some n \<Rightarrow>
               (let t = LocalTime tza t0;
                    newDate = MakeDate (MakeDay (YearFromTime t) (MonthFromTime t) n)
                                       (TimeWithinDay t)
                in TimeClip (UTC tza newDate))))"

definition setHours :: "int \<Rightarrow> Date \<Rightarrow> int \<Rightarrow> int \<Rightarrow> int \<Rightarrow> int \<Rightarrow> Date" where
  "setHours tza d h m s ms =
     (case d of None \<Rightarrow> None
      | Some t0 \<Rightarrow>
          (let t = LocalTime tza t0;
               date = MakeDate (Day t) (MakeTime h m s ms)
           in TimeClip (UTC tza date)))"

text \<open>
  \<open>new Date(year, month, date)\<close>: local midnight of that day; a year from 0 to 99 stands for
  1900 + year.
\<close>

definition newDate :: "int \<Rightarrow> Number \<Rightarrow> int \<Rightarrow> int \<Rightarrow> Date" where
  "newDate tza year month date =
     (case year of None \<Rightarrow> None
      | Some y \<Rightarrow>
          (let yr = (if 0 \<le> y \<and> y \<le> 99 then 1900 + y else y);
               finalDate = MakeDate (MakeDay yr month date) (MakeTime 0 0 0 0)
           in TimeClip (UTC tza finalDate)))"

subsection \<open>Strings\<close>

text \<open>
  Strings are lists of characters. \<open>toLowerCase\<close> and \<open>trim\<close> are modelled on the ASCII
  range: the letters A to Z are lowered, and the white space that is trimmed is the space,
  the tab, and the line feed, vertical tab, form feed and carriage return characters.
\<close>

definition digit :: "nat \<Rightarrow> char" where
  "digit n = ''0123456789'' ! n"

fun decimal :: "nat \<Rightarrow> string" where
  "decimal n = (if n < 10 then [digit n] else decimal (n div 10) @ [digit (n mod 10)])"

declare decimal.simps [simp del]

definition pad2 :: "nat \<Rightarrow> string" where
  "pad2 n = (if n < 10 then CHR ''0'' # decimal n else decimal n)"


definition toLowerChar :: "char \<Rightarrow> char" where
  "toLowerChar c =
     (case map_of (zip ''ABCDEFGHIJKLMNOPQRSTUVWXYZ'' ''abcdefghijklmnopqrstuvwxyz'') c of
        None \<Rightarrow> c | Some l \<Rightarrow> l)"

definition toLowerCase :: "string \<Rightarrow> string" where
  "toLowerCase s = map toLowerChar s"

definition isWhiteSpace :: "char \<Rightarrow> bool" where
  "isWhiteSpace c \<longleftrightarrow> c \<in> set [CHR '' '', CHR 0x09, CHR 0x0A, CHR 0x0B, CHR 0x0C, CHR 0x0D]"

definition trim :: "string \<Rightarrow> string" where
  "trim s = rev (dropWhile isWhiteSpace (rev (dropWhile isWhiteSpace s)))"

text \<open>\<open>s.split(sep)\<close> for a separator of one character; the result is never empty.\<close>

fun splitOn :: "char \<Rightarrow> string \<Rightarrow> string list" where
  "splitOn sep [] = [[]]"
| "splitOn sep (c # cs) =
     (if c = sep then [] # splitOn sep cs
      else (case splitOn sep cs of w # ws \<Rightarrow> (c # w) # ws | [] \<Rightarrow> [[c]]))"

subsection \<open>JSON values, thrown values and HTTP responses\<close>

text \<open>
  A value that \<open>JSON.parse\<close> returns or \<open>JSON.stringify\<close> serialises. An object is the list of
  its own properties in their order. \<open>JSON.parse\<close> itself is a parameter \<open>JSON_parse\<close> of the
  functions that call it: \<open>None\<close> when it throws a SyntaxError.
\<close>

datatype json =
  JNull | JBool bool | JNumber rat | JString string | JArray "json list"
  | JObject "(string \<times> json) list"

text \<open>Whether a value is truthy (\<open>if (v)\<close>, \<open>!v\<close>, \<open>v || d\<close>).\<close>

fun truthy :: "json \<Rightarrow> bool" where
  "truthy JNull = False"
| "truthy (JBool b) = b"
| "truthy (JNumber n) = (n \<noteq> 0)"
| "truthy (JString s) = (s \<noteq> [])"
| "truthy (JArray xs) = True"
| "truthy (JObject kvs) = True"

text \<open>\<open>typeof v === 'object'\<close>: objects, arrays and null.\<close>

fun typeof_object :: "json \<Rightarrow> bool" where
  "typeof_object JNull = True"
| "typeof_object (JArray xs) = True"
| "typeof_object (JObject kvs) = True"
| "typeof_object v = False"

text \<open>
  A thrown value or the reason of a rejected promise: an \<open>Error\<close> with its message (a rejection
  with a string reason is modelled the same way), or a \<open>TypeError\<close> of the runtime.
\<close>

datatype error = Error string | TypeError string

text \<open>
  The body of a response is a plain text, or the text \<open>JSON.stringify(v)\<close> of a value.
\<close>

datatype Body = Text string | JsonText json

record HttpResponseInit =
  status :: nat
  body :: Body

text \<open>
  The result of an invocation of a handler: the response it returns, or the value it throws
  (its promise is rejected).
\<close>

datatype Outcome = Returned HttpResponseInit | Threw error

text \<open>\<open>v || ""\<close> and \<open>v || null\<close> for a string or null \<open>v\<close>, and \<open>v || 0\<close> for a number or null.\<close>

definition orEmpty :: "string option \<Rightarrow> string" where
  "orEmpty v = (case v of None \<Rightarrow> [] | Some s \<Rightarrow> s)"

definition orNull :: "string option \<Rightarrow> string option" where
  "orNull v = (case v of None \<Rightarrow> None | Some s \<Rightarrow> if s = [] then None else Some s)"

definition orZero :: "int option \<Rightarrow> int" where
  "orZero v = (case v of None \<Rightarrow> 0 | Some n \<Rightarrow> n)"

text \<open>
  \<open>xs.sort((a, b) => cmp(a, b))\<close>: the sort is stable, and with a consistent comparator its
  result is that of the insertion sort below.
\<close>

fun insertBy :: "('a \<Rightarrow> 'a \<Rightarrow> int) \<Rightarrow> 'a \<Rightarrow> 'a list \<Rightarrow> 'a list" where
  "insertBy cmp x [] = [x]"
| "insertBy cmp x (y # ys) = (if cmp x y \<le> 0 then x # y # ys else y # insertBy cmp x ys)"

definition sortBy :: "('a \<Rightarrow> 'a \<Rightarrow> int) \<Rightarrow> 'a list \<Rightarrow> 'a list" where
  "sortBy cmp xs = foldr (insertBy cmp) xs []"

section \<open>getAttendance.ts\<close>

subsection \<open>Week ranges\<close>

definition getStartOfWeek :: "int \<Rightarrow> Date \<Rightarrow> Date" where
  "getStartOfWeek tza date =
     (let day = getDay tza date;
          diff = num_sub (Some (if day = Some 0 then - 6 else 1)) day;
          start = date;
          start = setDate tza start (num_add (getDate tza date) diff);
          start = setHours tza start 0 0 0 0
      in start)"

definition getNextWeekStart :: "int \<Rightarrow> Date \<Rightarrow> Date" where
  "getNextWeekStart tza currentWeekStart =
     (let nextWeekStart = currentWeekStart;
          nextWeekStart = setDate tza nextWeekStart (num_add (getDate tza currentWeekStart) (Some 7));
          nextWeekStart = setHours tza nextWeekStart 0 0 0 0
      in nextWeekStart)"

definition getEndOfWeek :: "int \<Rightarrow> Date \<Rightarrow> Date" where
  "getEndOfWeek tza startDate =
     (let end = startDate;
          end = setDate tza end (num_add (getDate tza startDate) (Some 6));
          end = setHours tza end 23 59 59 999
      in end)"

text \<open>
  \<open>toLocaleDateString("en-GB", { day: '2-digit', month: '2-digit', year: 'numeric' })\<close>:
  the day and the month with two digits and the year in decimal, separated by slashes, in the
  host's time zone; \<open>Invalid Date\<close> for an Invalid Date. A year before the year 1 is
  rendered as the year of its era, without the era.
\<close>

definition yearString :: "int \<Rightarrow> string" where
  "yearString y = (if 1 \<le> y then decimal (nat y) else decimal (nat (1 - y)))"

definition toLocaleDateString_enGB :: "int \<Rightarrow> Date \<Rightarrow> string" where
  "toLocaleDateString_enGB tza d =
     (case d of None \<Rightarrow> ''Invalid Date''
      | Some t0 \<Rightarrow>
          (let t = LocalTime tza t0 in
           pad2 (nat (DateFromTime t)) @ ''/'' @ pad2 (nat (MonthFromTime t + 1)) @ ''/'' @
           yearString (YearFromTime t)))"

definition formatWeekRange :: "int \<Rightarrow> Date \<Rightarrow> Date \<Rightarrow> string" where
  "formatWeekRange tza start end =
     (let startStr = toLocaleDateString_enGB tza start;
          endStr = toLocaleDateString_enGB tza end
      in ''Monday, '' @ startStr @ '' - Sunday, '' @ endStr)"

text \<open>
  The start of the previous week, as \<open>getAttendanceHandler\<close> computes it:
  \<open>previousWeekStart = new Date(currentWeekStart);
  previousWeekStart.setDate(previousWeekStart.getDate() - 7)\<close>.
\<close>

definition getPreviousWeekStart :: "int \<Rightarrow> Date \<Rightarrow> Date" where
  "getPreviousWeekStart tza currentWeekStart =
     (let previousWeekStart = currentWeekStart;
          previousWeekStart =
            setDate tza previousWeekStart (num_sub (getDate tza previousWeekStart) (Some 7))
      in previousWeekStart)"

text \<open>
  \<open>toLocaleDateString("en-GB", { weekday: "long" })\<close>, the name of the day of the week.
\<close>

definition weekdayName :: "int \<Rightarrow> string" where
  "weekdayName w =
     (if w = 0 then ''Sunday'' else if w = 1 then ''Monday'' else if w = 2 then ''Tuesday''
      else if w = 3 then ''Wednesday'' else if w = 4 then ''Thursday''
      else if w = 5 then ''Friday'' else ''Saturday'')"

definition toLocaleDateString_weekday :: "int \<Rightarrow> Date \<Rightarrow> string" where
  "toLocaleDateString_weekday tza d =
     (case d of None \<Rightarrow> ''Invalid Date'' | Some t0 \<Rightarrow> weekdayName (WeekDay (LocalTime tza t0)))"

text \<open>Step 3 of \<open>getAttendanceHandler\<close>: the week ranges that parametrise the query.\<close>

record WeekRanges =
  previousWeekRange :: string
  currentWeekRange :: string
  nextWeekRange :: string
  dayToCheck :: string

definition weekRanges :: "int \<Rightarrow> Date \<Rightarrow> WeekRanges" where
  "weekRanges tza todayDate =
     (let currentWeekStart = getStartOfWeek tza todayDate;
          currentWeekEnd = getEndOfWeek tza currentWeekStart;
          currentWeekRange' = formatWeekRange tza currentWeekStart currentWeekEnd;
          nextWeekStart = getNextWeekStart tza currentWeekStart;
          nextWeekEnd = getEndOfWeek tza nextWeekStart;
          nextWeekRange' = formatWeekRange tza nextWeekStart nextWeekEnd;
          previousWeekStart = getPreviousWeekStart tza currentWeekStart;
          previousWeekEnd = getEndOfWeek tza previousWeekStart;
          previousWeekRange' = formatWeekRange tza previousWeekStart previousWeekEnd;
          dayToCheckDate = todayDate;
          dayToCheck' = toLocaleDateString_weekday tza dayToCheckDate
      in \<lparr>previousWeekRange = previousWeekRange', currentWeekRange = currentWeekRange',
          nextWeekRange = nextWeekRange', dayToCheck = dayToCheck'\<rparr>)"

subsection \<open>queryAttendance\<close>

text \<open>
  A row of the attendance query, by column; \<open>None\<close> is SQL NULL (or a missing column).
\<close>

record AttendanceRow =
  row_name :: "string option"
  row_Level :: "string option"
  row_current_week :: "string option"
  row_current_attendance :: "string option"
  row_current_iso :: "int option"
  row_next_week :: "string option"
  row_next_attendance :: "string option"
  row_next_iso :: "int option"

record WeeklyAttendance =
  iso :: int
  attendance :: string

text \<open>
  \<open>weeks\<close> and \<open>attendanceMap\<close> are JavaScript objects used as dictionaries: association lists
  in the order in which the keys were first assigned, which is the order of \<open>Object.values\<close>
  for keys that are not canonical array indices. The keys (week labels, first names) are taken
  not to be names of properties inherited from \<open>Object.prototype\<close>.
\<close>

record PersonAttendance =
  name :: string
  level :: string
  weeks :: "(string \<times> WeeklyAttendance) list"

type_synonym AttendanceMap = "(string \<times> PersonAttendance) list"

text \<open>\<open>attendanceMap[name].weeks[week] = entry\<close>.\<close>

definition setWeek :: "string \<Rightarrow> string \<Rightarrow> WeeklyAttendance \<Rightarrow> AttendanceMap \<Rightarrow> AttendanceMap" where
  "setWeek nm week entry attendanceMap =
     AList.map_entry nm (\<lambda>p. p\<lparr>weeks := AList.update week entry (weeks p)\<rparr>) attendanceMap"

text \<open>The handler of the \<open>row\<close> event.\<close>

definition onRow :: "AttendanceMap \<Rightarrow> AttendanceRow \<Rightarrow> AttendanceMap" where
  "onRow attendanceMap columns =
     (let name' = orEmpty (row_name columns);
          level' = orEmpty (row_Level columns);
          currentWeek = orEmpty (row_current_week columns);
          currentAttendance = orEmpty (row_current_attendance columns);
          nextWeek = orEmpty (row_next_week columns);
          nextAttendance = orEmpty (row_next_attendance columns);
          currentISO = orZero (row_current_iso columns);
          nextISO = orZero (row_next_iso columns);
          attendanceMap =
            (if map_of attendanceMap name' = None
             then attendanceMap @ [(name', \<lparr>name = name', level = level', weeks = []\<rparr>)]
             else attendanceMap);
          attendanceMap =
            (if currentWeek \<noteq> []
             then setWeek name' currentWeek \<lparr>iso = currentISO, attendance = currentAttendance\<rparr>
                    attendanceMap
             else attendanceMap);
          attendanceMap =
            (if nextWeek \<noteq> []
             then setWeek name' nextWeek \<lparr>iso = nextISO, attendance = nextAttendance\<rparr>
                    attendanceMap
             else attendanceMap)
      in attendanceMap)"

text \<open>
  The rows arrive one by one; at \<open>requestCompleted\<close> the values of the map are sorted by
  name with \<open>localeCompare\<close>, the collation of the host, which is a parameter.
\<close>

definition queryAttendance_rows ::
  "(string \<Rightarrow> string \<Rightarrow> int) \<Rightarrow> AttendanceRow list \<Rightarrow> PersonAttendance list" where
  "queryAttendance_rows localeCompare rows =
     (let attendanceMap = foldl onRow [] rows;
          results = map snd attendanceMap
      in sortBy (\<lambda>a b. localeCompare (name a) (name b)) results)"

subsection \<open>getAttendanceHandler\<close>

text \<open>
  What the handler reads from outside: the clock (the time value of \<open>new Date()\<close>), the
  secret of the key vault (an error, or its value, which may be undefined) and the two
  databases (an error, or the rows; the attendance rows depend on the three week ranges bound
  as parameters). A row of the team query is the list of its columns, name and value. The
  connection configurations that \<open>parseConnectionString\<close> builds only parametrise the
  connections, whose results belong to the environment.
\<close>

record AttendanceEnv =
  att_now :: int
  att_getSecret :: "error + string option"
  att_attendanceRows :: "string \<Rightarrow> string \<Rightarrow> string \<Rightarrow> error + AttendanceRow list"
  att_teamRows :: "error + (string \<times> json) list list"

definition queryAttendance ::
  "(string \<Rightarrow> string \<Rightarrow> int) \<Rightarrow> AttendanceEnv \<Rightarrow> string \<Rightarrow> string \<Rightarrow> string \<Rightarrow>
   error + PersonAttendance list" where
  "queryAttendance localeCompare env previousWeek currentWeek nextWeek =
     (case att_attendanceRows env previousWeek currentWeek nextWeek of
        Inl err \<Rightarrow> Inl err
      | Inr rows \<Rightarrow> Inr (queryAttendance_rows localeCompare rows))"

text \<open>\<open>obj[col.metadata.colName] = col.value\<close> for every column of a row.\<close>

definition rowObject :: "(string \<times> json) list \<Rightarrow> json" where
  "rowObject columns = JObject (foldl (\<lambda>obj (k, v). AList.update k v obj) [] columns)"

definition queryTeamData :: "AttendanceEnv \<Rightarrow> error + json list" where
  "queryTeamData env =
     (case att_teamRows env of Inl err \<Rightarrow> Inl err | Inr rows \<Rightarrow> Inr (map rowObject rows))"

definition json_of_WeeklyAttendance :: "WeeklyAttendance \<Rightarrow> json" where
  "json_of_WeeklyAttendance w =
     JObject [(''iso'', JNumber (of_int (iso w))), (''attendance'', JString (attendance w))]"

definition json_of_PersonAttendance :: "PersonAttendance \<Rightarrow> json" where
  "json_of_PersonAttendance p =
     JObject [(''name'', JString (name p)), (''level'', JString (level p)),
              (''weeks'', JObject (map (\<lambda>(k, w). (k, json_of_WeeklyAttendance w)) (weeks p)))]"

definition getAttendanceHandler ::
  "int \<Rightarrow> (string \<Rightarrow> string \<Rightarrow> int) \<Rightarrow> AttendanceEnv \<Rightarrow> Outcome" where
  "getAttendanceHandler tza localeCompare env =
     (let failed = Returned \<lparr>status = 500, body = Text ''Error retrieving attendance data.''\<rparr> in
      case att_getSecret env of
        Inl err \<Rightarrow> failed
      | Inr passwordSecret \<Rightarrow>
          (let password = orEmpty passwordSecret;
               todayDate = TimeClip (att_now env);
               ranges = weekRanges tza todayDate
           in case queryAttendance localeCompare env (previousWeekRange ranges)
                     (currentWeekRange ranges) (nextWeekRange ranges) of
                Inl err \<Rightarrow> failed
              | Inr attendees \<Rightarrow>
                  (case queryTeamData env of
                     Inl err \<Rightarrow> failed
                   | Inr teamData \<Rightarrow>
                       Returned \<lparr>status = 200,
                                 body = JsonText (JObject
                                   [(''attendance'', JArray (map json_of_PersonAttendance attendees)),
                                    (''team'', JArray teamData)])\<rparr>)))"

section \<open>getAnnualLeave.ts\<close>

subsection \<open>Fiscal year boundaries\<close>

text \<open>The comparison \<open>a < b\<close> of two numbers: false when either is NaN.\<close>

definition num_lt :: "Number \<Rightarrow> Number \<Rightarrow> bool" where
  "num_lt a b = (case (a, b) of (Some x, Some y) \<Rightarrow> x < y | _ \<Rightarrow> False)"

text \<open>
  The fiscal year boundaries (April 1 - March 31) that \<open>queryUserAnnualLeave\<close> computes from
  \<open>today = new Date()\<close>.
\<close>

record FiscalYear =
  fiscalStart :: Date
  fiscalEnd :: Date

definition fiscalYearBoundaries :: "int \<Rightarrow> Date \<Rightarrow> FiscalYear" where
  "fiscalYearBoundaries tza today =
     (let currentMonth = getMonth tza today in
      if num_lt currentMonth (Some 3)
      then \<lparr>fiscalStart = newDate tza (num_sub (getFullYear tza today) (Some 1)) 3 1,
            fiscalEnd = newDate tza (getFullYear tza today) 2 31\<rparr>
      else \<lparr>fiscalStart = newDate tza (getFullYear tza today) 3 1,
            fiscalEnd = newDate tza (num_add (getFullYear tza today) (Some 1)) 2 31\<rparr>)"

subsection \<open>Records, caches and the environment\<close>

text \<open>
  \<open>string | null\<close> is \<open>string option\<close>; an optional field (\<open>AOW?\<close>, \<open>approvers?\<close>) is an
  option around its type, \<open>None\<close> when the field is absent. The field \<open>status\<close> of a leave
  record is \<open>leave_status\<close>, and the field \<open>AOW\<close> of the totals is \<open>totals_AOW\<close>.
\<close>

record AnnualLeaveRecord =
  request_id :: int
  person :: string
  start_date :: string
  end_date :: string
  reason :: string
  leave_status :: string
  days_taken :: rat
  leave_type :: "string option"
  rejection_notes :: "string option"
  AOW :: "string option option"
  approvers :: "string list option"

record Totals =
  standard :: rat
  unpaid :: rat
  purchase :: rat
  rejected :: rat
  totals_AOW :: "string option option"

record UserDetails =
  leaveEntries :: "AnnualLeaveRecord list"
  totals :: Totals

text \<open>
  \<open>Map<string, string | null>\<close>, from initials to the area of work: an association list in
  insertion order.
\<close>

type_synonym TeamAowMap = "(string \<times> string option) list"

text \<open>
  The caching variables of the module (the four \<open>...Error\<close> variables are never read or
  written). They live until the process restarts.
\<close>

record Cache =
  cachedAnnualLeave :: "AnnualLeaveRecord list option"
  cachedFutureLeave :: "AnnualLeaveRecord list option"
  cachedUserDetails :: "UserDetails option"
  cachedTeamAowMap :: "TeamAowMap option"

definition initialCache :: Cache where
  "initialCache = \<lparr>cachedAnnualLeave = None, cachedFutureLeave = None,
                    cachedUserDetails = None, cachedTeamAowMap = None\<rparr>"

text \<open>
  What an invocation reads from outside: the clock, the secret of the key vault, and the
  results of the four queries (an error, or the rows as the \<open>row\<close> handlers map them to
  records; the rows of the user's query depend on the initials and the fiscal year bound as
  parameters). A row of the team query is its \<open>Initials\<close> and its \<open>AOW\<close>.
\<close>

record LeaveEnv =
  now :: int
  getSecret :: "error + string option"
  teamRows :: "error + (string option \<times> string option) list"
  annualLeaveRows :: "error + AnnualLeaveRecord list"
  futureLeaveRows :: "error + AnnualLeaveRecord list"
  userLeaveRows :: "json \<Rightarrow> Date \<Rightarrow> Date \<Rightarrow> error + AnnualLeaveRecord list"

text \<open>The accesses to the key vault and to the databases that an invocation performs.\<close>

datatype Access = KeyVaultGetSecret | SqlTeam | SqlAnnualLeave | SqlFutureLeave | SqlUserAnnualLeave

subsection \<open>getRequestBody\<close>

text \<open>
  The body of the request: a value that is not a stream (an object, a string, or anything
  else, \<open>JNull\<close> standing for null and undefined), or a stream, whose reading fails or gives
  its chunks as strings.
\<close>

datatype ReqBody = BodyValue json | BodyStream "error + string list"

definition getRequestBody :: "(string \<Rightarrow> json option) \<Rightarrow> ReqBody \<Rightarrow> error + json" where
  "getRequestBody JSON_parse req =
     (case req of
        BodyValue v \<Rightarrow>
          if truthy v \<and> typeof_object v then Inr v
          else (case v of
                  JString s \<Rightarrow>
                    (case JSON_parse s of
                       None \<Rightarrow> Inl (Error ''Unable to parse request body string as JSON.'')
                     | Some parsed \<Rightarrow> Inr parsed)
                | _ \<Rightarrow> Inr (JObject []))
      | BodyStream reading \<Rightarrow>
          (case reading of
             Inl err \<Rightarrow> Inl err
           | Inr chunks \<Rightarrow>
               (case JSON_parse (concat chunks) of
                  None \<Rightarrow> Inl (Error ''Unable to parse streamed request body as JSON.'')
                | Some parsed \<Rightarrow> Inr parsed)))"

text \<open>
  \<open>body.initials\<close>: a TypeError for null, the own property of an object (\<open>None\<close> for
  undefined), undefined for any other value.
\<close>

definition getInitials :: "json \<Rightarrow> error + json option" where
  "getInitials body' =
     (case body' of
        JNull \<Rightarrow> Inl (TypeError ''Cannot read properties of null (reading 'initials')'')
      | JObject kvs \<Rightarrow> Inr (map_of kvs ''initials'')
      | _ \<Rightarrow> Inr None)"

definition truthyOpt :: "json option \<Rightarrow> bool" where
  "truthyOpt v = (case v of None \<Rightarrow> False | Some j \<Rightarrow> truthy j)"

subsection \<open>The team map and the approvers\<close>

definition queryTeamDataFromSQL :: "LeaveEnv \<Rightarrow> error + TeamAowMap" where
  "queryTeamDataFromSQL env =
     (case teamRows env of
        Inl err \<Rightarrow> Inl err
      | Inr rows \<Rightarrow>
          Inr (foldl (\<lambda>teamAowMap (initials, aow).
                        if orEmpty initials \<noteq> [] then AList.update (orEmpty initials) (orNull aow) teamAowMap
                        else teamAowMap) [] rows))"

text \<open>
  \<open>teamAowMap.get(key)\<close>, with null for undefined: both are falsy. A key that is not a string
  is not in the map.
\<close>

definition mapGet :: "TeamAowMap \<Rightarrow> string \<Rightarrow> string option" where
  "mapGet teamAowMap key = (case map_of teamAowMap key of None \<Rightarrow> None | Some v \<Rightarrow> v)"

definition mapGetJ :: "TeamAowMap \<Rightarrow> json \<Rightarrow> string option" where
  "mapGetJ teamAowMap key = (case key of JString s \<Rightarrow> mapGet teamAowMap s | _ \<Rightarrow> None)"

definition determineApprovers :: "string \<Rightarrow> string list" where
  "determineApprovers aow =
     (let aowList = map trim (splitOn CHR '','' (toLowerCase aow));
          approver = (if ''construction'' \<in> set aowList then ''JW'' else ''AC'')
      in [''LZ'', approver])"

definition enhanceLeaveWithAOWAndApprover ::
  "TeamAowMap \<Rightarrow> AnnualLeaveRecord list \<Rightarrow> AnnualLeaveRecord list" where
  "enhanceLeaveWithAOWAndApprover teamAowMap leaveEntries' =
     map (\<lambda>entry. entry\<lparr>AOW := Some (orNull (mapGet teamAowMap (person entry))),
                         approvers := Some (determineApprovers
                                              (orEmpty (mapGet teamAowMap (person entry))))\<rparr>)
         leaveEntries'"

subsection \<open>queryUserAnnualLeave\<close>

text \<open>
  One step of the \<open>forEach\<close> that calculates the totals. \<open>days_taken\<close> is a number in the
  record, so \<open>typeof entry.days_taken === "number"\<close> holds.
\<close>

definition addEntry :: "Totals \<Rightarrow> AnnualLeaveRecord \<Rightarrow> Totals" where
  "addEntry t entry =
     (if orEmpty (leave_type entry) \<noteq> [] then
        (let lt = toLowerCase (orEmpty (leave_type entry));
             t = (if lt = ''standard'' \<and> toLowerCase (leave_status entry) = ''booked''
                  then t\<lparr>standard := standard t + days_taken entry\<rparr>
                  else if lt = ''unpaid'' then t\<lparr>unpaid := unpaid t + days_taken entry\<rparr>
                  else if lt = ''purchase'' then t\<lparr>purchase := purchase t + days_taken entry\<rparr>
                  else t)
         in if toLowerCase (leave_status entry) = ''rejected'' \<and> orEmpty (rejection_notes entry) \<noteq> []
            then t\<lparr>rejected := rejected t + days_taken entry\<rparr>
            else t)
      else t)"

definition calculateTotals :: "AnnualLeaveRecord list \<Rightarrow> Totals" where
  "calculateTotals leaveEntries' =
     foldl addEntry \<lparr>standard = 0, unpaid = 0, purchase = 0, rejected = 0, totals_AOW = None\<rparr>
       leaveEntries'"

definition queryUserAnnualLeave :: "int \<Rightarrow> LeaveEnv \<Rightarrow> Cache \<Rightarrow> json \<Rightarrow> error + UserDetails" where
  "queryUserAnnualLeave tza env cache initials =
     (let today = TimeClip (now env);
          fy = fiscalYearBoundaries tza today
      in case userLeaveRows env initials (fiscalStart fy) (fiscalEnd fy) of
           Inl err \<Rightarrow> Inl err
         | Inr leaveEntries' \<Rightarrow>
             (let userAow = (case cachedTeamAowMap cache of
                               None \<Rightarrow> None
                             | Some m \<Rightarrow> orNull (mapGetJ m initials))
              in Inr \<lparr>leaveEntries = leaveEntries',
                      totals = (calculateTotals leaveEntries')\<lparr>totals_AOW := Some userAow\<rparr>\<rparr>))"

subsection \<open>getAnnualLeaveHandler\<close>

definition json_of_nullable :: "string option \<Rightarrow> json" where
  "json_of_nullable v = (case v of None \<Rightarrow> JNull | Some s \<Rightarrow> JString s)"

definition json_of_AnnualLeaveRecord :: "AnnualLeaveRecord \<Rightarrow> json" where
  "json_of_AnnualLeaveRecord e =
     JObject
       ([(''request_id'', JNumber (of_int (request_id e))), (''person'', JString (person e)),
         (''start_date'', JString (start_date e)), (''end_date'', JString (end_date e)),
         (''reason'', JString (reason e)), (''status'', JString (leave_status e)),
         (''days_taken'', JNumber (days_taken e)),
         (''leave_type'', json_of_nullable (leave_type e)),
         (''rejection_notes'', json_of_nullable (rejection_notes e))]
        @ (case AOW e of None \<Rightarrow> [] | Some a \<Rightarrow> [(''AOW'', json_of_nullable a)])
        @ (case approvers e of None \<Rightarrow> [] | Some as \<Rightarrow> [(''approvers'', JArray (map JString as))]))"

definition json_of_Totals :: "Totals \<Rightarrow> json" where
  "json_of_Totals t =
     JObject
       ([(''standard'', JNumber (standard t)), (''unpaid'', JNumber (unpaid t)),
         (''purchase'', JNumber (purchase t)), (''rejected'', JNumber (rejected t))]
        @ (case totals_AOW t of None \<Rightarrow> [] | Some a \<Rightarrow> [(''AOW'', json_of_nullable a)]))"

definition json_of_UserDetails :: "UserDetails \<Rightarrow> json" where
  "json_of_UserDetails u =
     JObject [(''leaveEntries'', JArray (map json_of_AnnualLeaveRecord (leaveEntries u))),
              (''totals'', json_of_Totals (totals u))]"

text \<open>The object \<open>{ annual_leave, future_leave, user_details }\<close> that is serialised.\<close>

definition json_of_AnnualLeaveResponse ::
  "AnnualLeaveRecord list \<Rightarrow> AnnualLeaveRecord list \<Rightarrow> UserDetails \<Rightarrow> json" where
  "json_of_AnnualLeaveResponse annual future user =
     JObject [(''annual_leave'', JArray (map json_of_AnnualLeaveRecord annual)),
              (''future_leave'', JArray (map json_of_AnnualLeaveRecord future)),
              (''user_details'', json_of_UserDetails user)]"

text \<open>
  The \<open>try\<close> block of the handler, from the key vault to the response. The three queries of
  \<open>Promise.all\<close> are all started; the response is an error if any of them rejects.
\<close>

definition fetchAndRespond ::
  "int \<Rightarrow> LeaveEnv \<Rightarrow> Cache \<Rightarrow> json \<Rightarrow> Outcome \<times> Cache \<times> Access list" where
  "fetchAndRespond tza env cache userInitials =
     (let failed = Returned \<lparr>status = 500,
                              body = Text ''An error occurred while processing your request.''\<rparr>
      in case getSecret env of
           Inl err \<Rightarrow> (failed, cache, [KeyVaultGetSecret])
         | Inr passwordSecret \<Rightarrow>
             (case (case cachedTeamAowMap cache of
                      Some m \<Rightarrow> (Inr m, cache, [])
                    | None \<Rightarrow>
                        (case queryTeamDataFromSQL env of
                           Inl err \<Rightarrow> (Inl err, cache, [SqlTeam])
                         | Inr m \<Rightarrow> (Inr m, cache\<lparr>cachedTeamAowMap := Some m\<rparr>, [SqlTeam]))) of
                (Inl err, cache1, accesses) \<Rightarrow> (failed, cache1, KeyVaultGetSecret # accesses)
              | (Inr teamAowMap, cache1, accesses) \<Rightarrow>
                  (let accesses = KeyVaultGetSecret # accesses @
                                    [SqlAnnualLeave, SqlFutureLeave, SqlUserAnnualLeave]
                   in case (annualLeaveRows env, futureLeaveRows env,
                            queryUserAnnualLeave tza env cache1 userInitials) of
                        (Inr annualLeaveEntries, Inr futureLeaveEntries, Inr userDetails) \<Rightarrow>
                          (let enhancedAnnualLeave =
                                 enhanceLeaveWithAOWAndApprover teamAowMap annualLeaveEntries;
                               enhancedFutureLeave =
                                 enhanceLeaveWithAOWAndApprover teamAowMap futureLeaveEntries;
                               userAow = orNull (mapGetJ teamAowMap userInitials);
                               enhancedUserDetails =
                                 userDetails\<lparr>totals := (totals userDetails)\<lparr>totals_AOW := Some userAow\<rparr>\<rparr>;
                               cache2 = cache1\<lparr>cachedAnnualLeave := Some enhancedAnnualLeave,
                                               cachedFutureLeave := Some enhancedFutureLeave,
                                               cachedUserDetails := Some enhancedUserDetails\<rparr>
                           in (Returned \<lparr>status = 200,
                                         body = JsonText (json_of_AnnualLeaveResponse
                                                  enhancedAnnualLeave enhancedFutureLeave
                                                  enhancedUserDetails)\<rparr>,
                               cache2, accesses))
                      | _ \<Rightarrow> (failed, cache1, accesses))))"

definition getAnnualLeaveHandler ::
  "(string \<Rightarrow> json option) \<Rightarrow> int \<Rightarrow> LeaveEnv \<Rightarrow> Cache \<Rightarrow> ReqBody \<Rightarrow>
   Outcome \<times> Cache \<times> Access list" where
  "getAnnualLeaveHandler JSON_parse tza env cache req =
     (case getRequestBody JSON_parse req of
        Inl err \<Rightarrow>
          (Returned \<lparr>status = 400, body = Text ''Invalid request body. Ensure it's valid JSON.''\<rparr>,
           cache, [])
      | Inr body' \<Rightarrow>
          (case getInitials body' of
             Inl err \<Rightarrow> (Threw err, cache, [])
           | Inr userInitials \<Rightarrow>
               (case (if truthyOpt userInitials then userInitials else None) of
                  None \<Rightarrow>
                    (Returned \<lparr>status = 400, body = Text ''Missing 'initials' in request body.''\<rparr>,
                     cache, [])
                | Some initials \<Rightarrow>
                    (case (cachedAnnualLeave cache, cachedFutureLeave cache,
                           cachedUserDetails cache, cachedTeamAowMap cache) of
                       (Some annual, Some future, Some user, Some team) \<Rightarrow>
                         (Returned \<lparr>status = 200,
                                    body = JsonText (json_of_AnnualLeaveResponse annual future user)\<rparr>,
                          cache, [])
                     | _ \<Rightarrow> fetchAndRespond tza env cache initials))))"

text \<open>The cache after a sequence of invocations, each with its environment and request.\<close>

fun runInvocations ::
  "(string \<Rightarrow> json option) \<Rightarrow> int \<Rightarrow> Cache \<Rightarrow> (LeaveEnv \<times> ReqBody) list \<Rightarrow> Cache" where
  "runInvocations JSON_parse tza cache [] = cache"
| "runInvocations JSON_parse tza cache ((env, req) # rest) =
     runInvocations JSON_parse tza (fst (snd (getAnnualLeaveHandler JSON_parse tza env cache req))) rest"

section \<open>OutstandingBalancesList\<close>

text \<open>The component of \<open>src/unnamed/part_000\<close>. The types \<open>OutstandingClientBalance\<close> and
  \<open>Matter\<close> are imported from a file that is not part of the sources, so the records below have
  the fields the component reads, typed as it uses them; a bill is \<open>any\<close> in the source and is
  given the fields read from it. Amounts are rationals (they arrive as JSON numbers, so none
  is NaN), and what \<open>toFixed(2)\<close> prints of them is left to the view. The element that is
  returned is modelled by its content: the text, or the list of client cards with their
  matter links and bill rows; styling is omitted. \<open>Number(matter.UniqueID)\<close> and
  \<open>new Date(bill.due_at)\<close> are parameters (\<open>toNumber\<close>, \<open>Date_parse\<close>, NaN and the invalid date
  being \<open>None\<close>), and so is the clock: \<open>new Date()\<close> is read once for every bill, \<open>clock i j\<close>
  for bill \<open>j\<close> of the \<open>i\<close>-th rendered client. The day difference is computed exactly, as
  doubles do as long as the difference of the two time values is below \<open>2^53\<close> in magnitude.\<close>

record Bill =
  bill_id :: int
  bill_number :: string
  bill_total :: rat
  bill_paid :: rat
  bill_due :: rat
  bill_issued_at :: string
  bill_due_at :: string
  bill_paid_at :: string

record Contact =
  contact_name :: "string option"

record OutstandingClientBalance =
  balance_id :: int
  contact :: "Contact option"
  total_outstanding_balance :: rat
  associated_matter_ids :: "rat option list"
  outstanding_bills :: "Bill list"

record Matter =
  UniqueID :: string
  DisplayNumber :: string

record BillRow =
  billrow_key :: int
  billrow_index :: nat
  billrow_number :: string
  billrow_dueStatus :: string
  billrow_total :: rat
  billrow_paid :: "rat option"
  billrow_balance :: rat
  billrow_issued :: Date
  billrow_due :: Date

record ClientCard =
  card_key :: int
  card_name :: string
  card_amount :: rat
  card_matters :: "Matter list option"
  card_bills :: "BillRow list"

datatype Element = TextElement string | DivElement "ClientCard list"

definition computeDueStatus :: "(string \<Rightarrow> Date) \<Rightarrow> int \<Rightarrow> Bill \<Rightarrow> string" where
  "computeDueStatus Date_parse now' bill =
     (let today = TimeClip now';
          dueDate = Date_parse (bill_due_at bill);
          diffTime = num_sub (getTime today) (getTime dueDate);
          diffDays = map_option (\<lambda>t. t div (1000 * 3600 * 24)) diffTime
      in case diffDays of
           None \<Rightarrow> ''Due today''
         | Some n \<Rightarrow>
             if n > 0 then decimal (nat n) @ '' day'' @ (if n > 1 then ''s'' else '''') @ '' overdue''
             else if n < 0
             then ''Due in '' @ decimal (nat \<bar>n\<bar>) @ '' day'' @ (if \<bar>n\<bar> > 1 then ''s'' else '''')
             else ''Due today'')"

definition getClientMatters ::
  "(string \<Rightarrow> rat option) \<Rightarrow> Matter list \<Rightarrow> OutstandingClientBalance \<Rightarrow> Matter list" where
  "getClientMatters toNumber matters balance =
     filter (\<lambda>matter. toNumber (UniqueID matter) \<in> set (associated_matter_ids balance)) matters"

definition billRow :: "(string \<Rightarrow> Date) \<Rightarrow> int \<Rightarrow> nat \<Rightarrow> Bill \<Rightarrow> BillRow" where
  "billRow Date_parse now' index bill =
     \<lparr>billrow_key = bill_id bill, billrow_index = index, billrow_number = bill_number bill,
      billrow_dueStatus = computeDueStatus Date_parse now' bill,
      billrow_total = bill_total bill,
      billrow_paid = (if bill_paid bill > 0 then Some (bill_paid bill) else None),
      billrow_balance = bill_due bill,
      billrow_issued = Date_parse (bill_issued_at bill),
      billrow_due = Date_parse (bill_due_at bill)\<rparr>"

definition clientCard ::
  "(string \<Rightarrow> rat option) \<Rightarrow> (string \<Rightarrow> Date) \<Rightarrow> (nat \<Rightarrow> int) \<Rightarrow> Matter list \<Rightarrow>
   OutstandingClientBalance \<Rightarrow> ClientCard" where
  "clientCard toNumber Date_parse clock matters balance =
     (let clientMatters = getClientMatters toNumber matters balance
      in \<lparr>card_key = balance_id balance,
          card_name =
            (case (case contact balance of None \<Rightarrow> None | Some c \<Rightarrow> contact_name c) of
               None \<Rightarrow> ''Unknown Client''
             | Some n \<Rightarrow> if n \<noteq> [] then n else ''Unknown Client''),
          card_amount = total_outstanding_balance balance,
          card_matters = (if length clientMatters > 0 then Some clientMatters else None),
          card_bills =
            map (\<lambda>(index, bill). billRow Date_parse (clock index) index bill)
              (enumerate 0 (outstanding_bills balance))\<rparr>)"

definition OutstandingBalancesList ::
  "(string \<Rightarrow> rat option) \<Rightarrow> (string \<Rightarrow> Date) \<Rightarrow> (nat \<Rightarrow> nat \<Rightarrow> int) \<Rightarrow>
   OutstandingClientBalance list \<Rightarrow> Matter list \<Rightarrow> Element" where
  "OutstandingBalancesList toNumber Date_parse clock balances matters =
     (let filtered = filter (\<lambda>item. total_outstanding_balance item > 0) balances
      in if length filtered = 0 then TextElement ''No outstanding balances found.''
         else DivElement
                (map (\<lambda>(i, balance). clientCard toNumber Date_parse (clock i) matters balance)
                   (enumerate 0 filtered)))"

section \<open>Definitions that state the claims\<close>








definition populated :: "Cache \<Rightarrow> bool" where
  "populated cache \<longleftrightarrow>
     cachedAnnualLeave cache \<noteq> None \<and> cachedFutureLeave cache \<noteq> None \<and>
     cachedUserDetails cache \<noteq> None \<and> cachedTeamAowMap cache \<noteq> None"

text \<open>The response that a populated cache holds.\<close>

definition cachedResponse :: "Cache \<Rightarrow> HttpResponseInit" where
  "cachedResponse cache =
     \<lparr>status = 200,
      body = JsonText (json_of_AnnualLeaveResponse (the (cachedAnnualLeave cache))
               (the (cachedFutureLeave cache)) (the (cachedUserDetails cache)))\<rparr>"

text \<open>The request carries a body that parses and has a truthy \<open>initials\<close>.\<close>

definition carriesInitials :: "(string \<Rightarrow> json option) \<Rightarrow> ReqBody \<Rightarrow> bool" where
  "carriesInitials JSON_parse req \<longleftrightarrow>
     (\<exists>b v. getRequestBody JSON_parse req = Inr b \<and> getInitials b = Inr (Some v) \<and> truthy v)"


definition isOK :: "'e + 'a \<Rightarrow> bool" where
  "isOK r = (case r of Inl e \<Rightarrow> False | Inr v \<Rightarrow> True)"



definition invalidBody :: HttpResponseInit where
  "invalidBody = \<lparr>status = 400, body = Text ''Invalid request body. Ensure it's valid JSON.''\<rparr>"

definition missingInitials :: HttpResponseInit where
  "missingInitials = \<lparr>status = 400, body = Text ''Missing 'initials' in request body.''\<rparr>"

definition processingFailed :: HttpResponseInit where
  "processingFailed =
     \<lparr>status = 500, body = Text ''An error occurred while processing your request.''\<rparr>"

definition attendanceFailed :: HttpResponseInit where
  "attendanceFailed = \<lparr>status = 500, body = Text ''Error retrieving attendance data.''\<rparr>"

definition weekEntryOf :: "AttendanceRow \<Rightarrow> string \<Rightarrow> WeeklyAttendance option" where
  "weekEntryOf r wk =
     (if wk = [] then None
      else if orEmpty (row_next_week r) = wk
        then Some \<lparr>iso = orZero (row_next_iso r), attendance = orEmpty (row_next_attendance r)\<rparr>
      else if orEmpty (row_current_week r) = wk
        then Some \<lparr>iso = orZero (row_current_iso r),
                   attendance = orEmpty (row_current_attendance r)\<rparr>
      else None)"

fun lastEntry :: "AttendanceRow list \<Rightarrow> string \<Rightarrow> string \<Rightarrow> WeeklyAttendance option" where
  "lastEntry [] nm wk = None"
| "lastEntry (r # rs) nm wk =
     (case lastEntry rs nm wk of
        Some e \<Rightarrow> Some e
      | None \<Rightarrow> if orEmpty (row_name r) = nm then weekEntryOf r wk else None)"

text \<open>The person that a row is added to, and the weeks of that person after the row.\<close>

definition rowPerson :: "AttendanceMap \<Rightarrow> AttendanceRow \<Rightarrow> PersonAttendance" where
  "rowPerson m r =
     (case map_of m (orEmpty (row_name r)) of
        None \<Rightarrow> \<lparr>name = orEmpty (row_name r), level = orEmpty (row_Level r), weeks = []\<rparr>
      | Some p \<Rightarrow> p)"

definition rowWeeks ::
  "AttendanceRow \<Rightarrow> (string \<times> WeeklyAttendance) list \<Rightarrow> (string \<times> WeeklyAttendance) list" where
  "rowWeeks r ws =
     (let ws1 = (if orEmpty (row_current_week r) \<noteq> []
                 then AList.update (orEmpty (row_current_week r))
                        \<lparr>iso = orZero (row_current_iso r),
                         attendance = orEmpty (row_current_attendance r)\<rparr> ws
                 else ws)
      in if orEmpty (row_next_week r) \<noteq> []
         then AList.update (orEmpty (row_next_week r))
                \<lparr>iso = orZero (row_next_iso r), attendance = orEmpty (row_next_attendance r)\<rparr> ws1
         else ws1)"

definition attInv :: "AttendanceRow list \<Rightarrow> AttendanceMap \<Rightarrow> bool" where
  "attInv rows m \<longleftrightarrow>
     distinct (map fst m) \<and>
     set (map fst m) = (\<lambda>r. orEmpty (row_name r)) ` set rows \<and>
     (\<forall>k p. map_of m k = Some p \<longrightarrow>
        name p = k \<and> distinct (map fst (weeks p)) \<and>
        (\<forall>wk. map_of (weeks p) wk = lastEntry rows k wk))"

text \<open>The contribution of one leave entry to each of the four totals, as the specification
  words it: by leave type and status, compared case-insensitively.\<close>

text \<open>The conditions of the claim on a leave entry, case-insensitive where the claim says so.\<close>

definition leaveTypeIs :: "string \<Rightarrow> AnnualLeaveRecord \<Rightarrow> bool" where
  "leaveTypeIs ty e \<longleftrightarrow> (\<exists>lt. leave_type e = Some lt \<and> lt \<noteq> [] \<and> toLowerCase lt = ty)"

definition hasLeaveType :: "AnnualLeaveRecord \<Rightarrow> bool" where
  "hasLeaveType e \<longleftrightarrow> (\<exists>lt. leave_type e = Some lt \<and> lt \<noteq> [])"

definition statusIs :: "string \<Rightarrow> AnnualLeaveRecord \<Rightarrow> bool" where
  "statusIs st e \<longleftrightarrow> toLowerCase (leave_status e) = st"

definition hasRejectionNotes :: "AnnualLeaveRecord \<Rightarrow> bool" where
  "hasRejectionNotes e \<longleftrightarrow> (\<exists>n. rejection_notes e = Some n \<and> n \<noteq> [])"

text \<open>The days that an entry contributes to each total.\<close>

definition standardDays :: "AnnualLeaveRecord \<Rightarrow> rat" where
  "standardDays e = (if leaveTypeIs ''standard'' e \<and> statusIs ''booked'' e then days_taken e else 0)"

definition unpaidDays :: "AnnualLeaveRecord \<Rightarrow> rat" where
  "unpaidDays e = (if leaveTypeIs ''unpaid'' e then days_taken e else 0)"

definition purchaseDays :: "AnnualLeaveRecord \<Rightarrow> rat" where
  "purchaseDays e = (if leaveTypeIs ''purchase'' e then days_taken e else 0)"

definition rejectedDays :: "AnnualLeaveRecord \<Rightarrow> rat" where
  "rejectedDays e =
     (if hasLeaveType e \<and> statusIs ''rejected'' e \<and> hasRejectionNotes e then days_taken e else 0)"

text \<open>The specification's words: the clients with a strictly positive balance, the floored
  whole-day difference from the due date to today, and the plural of \<open>day\<close>.\<close>

definition positiveBalances :: "OutstandingClientBalance list \<Rightarrow> OutstandingClientBalance list" where
  "positiveBalances balances = filter (\<lambda>b. 0 < total_outstanding_balance b) balances"

definition dayDifference :: "int \<Rightarrow> int \<Rightarrow> int" where
  "dayDifference today due = (today - due) div msPerDay"

definition dayCount :: "int \<Rightarrow> string" where
  "dayCount n = decimal (nat n) @ (if n = 1 then '' day'' else '' days'')"

text \<open>The items of a comma-separated AOW list, each trimmed and lowercased.\<close>

definition aowItems :: "string \<Rightarrow> string list" where
  "aowItems aow = map (\<lambda>item. toLowerCase (trim item)) (splitOn CHR '','' aow)"

text \<open>A leave entry is enhanced with respect to a team map when its approvers are those of
  the AOW that the map gives for its person; a cache is enhanced when its entries are, with
  respect to the cached team map.\<close>

definition enhanced :: "TeamAowMap \<Rightarrow> AnnualLeaveRecord \<Rightarrow> bool" where
  "enhanced team e \<longleftrightarrow>
     approvers e = Some (determineApprovers (orEmpty (mapGet team (person e))))"

definition enhancedCache :: "Cache \<Rightarrow> bool" where
  "enhancedCache cache \<longleftrightarrow>
     (case cachedTeamAowMap cache of
        None \<Rightarrow> cachedAnnualLeave cache = None \<and> cachedFutureLeave cache = None
      | Some team \<Rightarrow>
          (case cachedAnnualLeave cache of None \<Rightarrow> True | Some es \<Rightarrow> list_all (enhanced team) es) \<and>
          (case cachedFutureLeave cache of None \<Rightarrow> True | Some es \<Rightarrow> list_all (enhanced team) es))"

text \<open>The fields of a response body, the elements of an array in it, and what it means for
  a serialised leave entry to carry the approvers of its person.\<close>

definition jsonField :: "string \<Rightarrow> json \<Rightarrow> json option" where
  "jsonField k j = (case j of JObject kvs \<Rightarrow> map_of kvs k | _ \<Rightarrow> None)"

definition bodyField :: "string \<Rightarrow> Body \<Rightarrow> json option" where
  "bodyField k b = (case b of JsonText j \<Rightarrow> jsonField k j | Text t \<Rightarrow> None)"

definition jsonElements :: "json option \<Rightarrow> json list" where
  "jsonElements j = (case j of Some (JArray xs) \<Rightarrow> xs | _ \<Rightarrow> [])"

definition enhancedJson :: "TeamAowMap \<Rightarrow> json \<Rightarrow> bool" where
  "enhancedJson team j \<longleftrightarrow>
     (\<exists>p. jsonField ''person'' j = Some (JString p) \<and>
          jsonField ''approvers'' j =
            Some (JArray (map JString (determineApprovers (orEmpty (mapGet team p))))))"

text \<open>The entries of \<open>user_details.leaveEntries\<close> in a response body.\<close>

definition userLeaveEntries :: "Body \<Rightarrow> json list" where
  "userLeaveEntries b =
     jsonElements (case bodyField ''user_details'' b of
                     None \<Rightarrow> None | Some u \<Rightarrow> jsonField ''leaveEntries'' u)"

section \<open>Example data for the witnesses\<close>

text \<open>Example data: a first caller AB whose invocation succeeds, and a later caller CD whose
  environment fails at every access.\<close>

definition exampleLeave :: AnnualLeaveRecord where
  "exampleLeave = \<lparr>request_id = 7, person = ''AB'', start_date = ''2025-01-13'',
     end_date = ''2025-01-17'', reason = ''Holiday'', leave_status = ''Booked'', days_taken = 5,
     leave_type = Some ''Standard'', rejection_notes = None, AOW = None, approvers = None\<rparr>"

definition exampleEnv :: LeaveEnv where
  "exampleEnv = \<lparr>now = 1736937000000, getSecret = Inr (Some ''secret''),
     teamRows = Inr [(Some ''AB'', Some ''Construction, Property'')],
     annualLeaveRows = Inr [exampleLeave], futureLeaveRows = Inr [],
     userLeaveRows = (\<lambda>initials fiscalStart' fiscalEnd'. Inr [exampleLeave])\<rparr>"


definition requestOf :: "string \<Rightarrow> ReqBody" where
  "requestOf initials = BodyValue (JObject [(''initials'', JString initials)])"

definition noParse :: "string \<Rightarrow> json option" where
  "noParse s = None"

definition exampleCache :: Cache where
  "exampleCache =
     \<lparr>cachedAnnualLeave =
        Some [exampleLeave\<lparr>AOW := Some (Some ''Construction, Property''),
                           approvers := Some [''LZ'', ''JW'']\<rparr>],
      cachedFutureLeave = Some [],
      cachedUserDetails =
        Some \<lparr>leaveEntries = [exampleLeave],
              totals = \<lparr>standard = 5, unpaid = 0, purchase = 0, rejected = 0,
                        totals_AOW = Some (Some ''Construction, Property'')\<rparr>\<rparr>,
      cachedTeamAowMap = Some [(''AB'', Some ''Construction, Property'')]\<rparr>"

definition exampleResponse :: HttpResponseInit where
  "exampleResponse =
     \<lparr>status = 200,
      body = JsonText (json_of_AnnualLeaveResponse (the (cachedAnnualLeave exampleCache))
               (the (cachedFutureLeave exampleCache)) (the (cachedUserDetails exampleCache)))\<rparr>"

definition parseNullOnly :: "string \<Rightarrow> json option" where
  "parseNullOnly s = (if s = ''null'' then Some JNull else None)"

definition charCode :: "char \<Rightarrow> nat" where
  "charCode c = of_char c"

fun compareChars :: "string \<Rightarrow> string \<Rightarrow> int" where
  "compareChars [] [] = 0"
| "compareChars [] (y # ys) = - 1"
| "compareChars (x # xs) [] = 1"
| "compareChars (x # xs) (y # ys) =
     (if charCode x < charCode y then - 1
      else if charCode y < charCode x then 1 else compareChars xs ys)"

definition weekA :: string where "weekA = ''Monday, 13/01/2025 - Sunday, 19/01/2025''"

definition weekB :: string where "weekB = ''Monday, 20/01/2025 - Sunday, 26/01/2025''"

definition exampleRows :: "AttendanceRow list" where
  "exampleRows =
     [\<lparr>row_name = Some ''Bob'', row_Level = Some ''Partner'',
       row_current_week = Some weekA, row_current_attendance = Some ''Mon,Tue'',
       row_current_iso = Some 3, row_next_week = Some weekB,
       row_next_attendance = Some ''Wed'', row_next_iso = Some 4\<rparr>,
      \<lparr>row_name = Some ''Ann'', row_Level = None,
       row_current_week = Some weekA, row_current_attendance = Some ''Thu'',
       row_current_iso = Some 3, row_next_week = None,
       row_next_attendance = None, row_next_iso = None\<rparr>,
      \<lparr>row_name = Some ''Bob'', row_Level = Some ''Partner'',
       row_current_week = Some weekB, row_current_attendance = Some ''Fri'',
       row_current_iso = Some 4, row_next_week = None,
       row_next_attendance = None, row_next_iso = None\<rparr>]"

definition exampleAttendees :: "PersonAttendance list" where
  "exampleAttendees =
     [\<lparr>name = ''Ann'', level = [], weeks = [(weekA, \<lparr>iso = 3, attendance = ''Thu''\<rparr>)]\<rparr>,
      \<lparr>name = ''Bob'', level = ''Partner'',
       weeks = [(weekA, \<lparr>iso = 3, attendance = ''Mon,Tue''\<rparr>),
                (weekB, \<lparr>iso = 4, attendance = ''Fri''\<rparr>)]\<rparr>]"



definition leaveOf :: "string option \<Rightarrow> string \<Rightarrow> string option \<Rightarrow> rat \<Rightarrow> AnnualLeaveRecord" where
  "leaveOf ty st notes days =
     \<lparr>request_id = 1, person = ''AB'', start_date = ''2025-05-01'', end_date = ''2025-05-02'',
      reason = [], leave_status = st, days_taken = days, leave_type = ty,
      rejection_notes = notes, AOW = None, approvers = None\<rparr>"

definition exampleEntries :: "AnnualLeaveRecord list" where
  "exampleEntries =
     [leaveOf (Some ''Standard'') ''Booked'' None 5,
      leaveOf (Some ''standard'') ''requested'' None 2,
      leaveOf (Some ''Unpaid'') ''Rejected'' (Some ''too late'') 1,
      leaveOf (Some ''PURCHASE'') ''booked'' None 3,
      leaveOf None ''rejected'' (Some ''no type'') 4,
      leaveOf (Some ''standard'') ''rejected'' (Some ''overlap'') (1 / 2),
      leaveOf (Some ''standard'') ''rejected'' None 7]"

definition totalsEnv :: LeaveEnv where
  "totalsEnv = exampleEnv\<lparr>userLeaveRows := (\<lambda>initials fiscalStart' fiscalEnd'. Inr exampleEntries)\<rparr>"

definition exampleUserDetails :: UserDetails where
  "exampleUserDetails =
     \<lparr>leaveEntries = exampleEntries,
      totals = \<lparr>standard = 5, unpaid = 1, purchase = 3, rejected = 3 / 2,
                totals_AOW = Some (Some ''Construction, Property'')\<rparr>\<rparr>"

definition exampleParse :: "string \<Rightarrow> Date" where
  "exampleParse = map_of [(''2025-01-12'', 1736640000000), (''2025-01-14'', 1736812800000),
     (''2025-01-15'', 1736899200000), (''2025-01-16'', 1737014400000)]"

definition exampleNumber :: "string \<Rightarrow> rat option" where
  "exampleNumber = map_of [(''101'', 101), (''102'', 102)]"

definition billDue :: "int \<Rightarrow> string \<Rightarrow> Bill" where
  "billDue i due =
     \<lparr>bill_id = i, bill_number = ''B'' @ decimal (nat i), bill_total = 100, bill_paid = 0,
      bill_due = 100, bill_issued_at = ''2025-01-12'', bill_due_at = due, bill_paid_at = []\<rparr>"

definition exampleBalances :: "OutstandingClientBalance list" where
  "exampleBalances =
     [\<lparr>balance_id = 1, contact = Some \<lparr>contact_name = Some ''Settled Ltd''\<rparr>,
       total_outstanding_balance = 0, associated_matter_ids = [Some 101],
       outstanding_bills = []\<rparr>,
      \<lparr>balance_id = 2, contact = None, total_outstanding_balance = 241 / 2,
       associated_matter_ids = [Some 102],
       outstanding_bills = [billDue 1 ''2025-01-12'', billDue 2 ''2025-01-16'',
         billDue 3 ''2025-01-15'', billDue 4 ''soon'']\<rparr>,
      \<lparr>balance_id = 3, contact = Some \<lparr>contact_name = Some ''Credit Ltd''\<rparr>,
       total_outstanding_balance = - 5, associated_matter_ids = [],
       outstanding_bills = [billDue 5 ''2025-01-14'']\<rparr>]"

definition exampleMatters :: "Matter list" where
  "exampleMatters = [\<lparr>UniqueID = ''101'', DisplayNumber = ''M-101''\<rparr>,
     \<lparr>UniqueID = ''102'', DisplayNumber = ''M-102''\<rparr>, \<lparr>UniqueID = ''x'', DisplayNumber = ''M-x''\<rparr>]"

definition exampleClock :: "nat \<Rightarrow> nat \<Rightarrow> int" where
  "exampleClock i j = 1736937000000 + int j"

definition exampleRow :: "nat \<Rightarrow> string \<Rightarrow> string \<Rightarrow> BillRow" where
  "exampleRow i due st =
     \<lparr>billrow_key = int (i + 1), billrow_index = i, billrow_number = ''B'' @ decimal (i + 1),
      billrow_dueStatus = st, billrow_total = 100, billrow_paid = None, billrow_balance = 100,
      billrow_issued = Some 1736640000000, billrow_due = exampleParse due\<rparr>"

definition exampleCards :: "ClientCard list" where
  "exampleCards =
     [\<lparr>card_key = 2, card_name = ''Unknown Client'', card_amount = 241 / 2,
       card_matters = Some [\<lparr>UniqueID = ''102'', DisplayNumber = ''M-102''\<rparr>],
       card_bills = [exampleRow 0 ''2025-01-12'' ''3 days overdue'',
         exampleRow 1 ''2025-01-16'' ''Due in 1 day'', exampleRow 2 ''2025-01-15'' ''Due today'',
         exampleRow 3 ''soon'' ''Due today'']\<rparr>]"

definition enhancedExampleLeave :: AnnualLeaveRecord where
  "enhancedExampleLeave =
     exampleLeave\<lparr>AOW := Some (Some ''Construction, Property''), approvers := Some [''LZ'', ''JW'']\<rparr>"

section \<open>Properties of the date model\<close>

lemma DaysInYear_ge: "365 \<le> DaysInYear y"
  by (simp add: DaysInYear_def)



lemma DayFromYear_mono_step: "DayFromYear y < DayFromYear (y + 1)"
  using DayFromYear_Suc[of y] DaysInYear_ge[of y] by simp



lemma DayFromYear_mono: "y \<le> z \<Longrightarrow> DayFromYear y \<le> DayFromYear z"
proof (induction z rule: int_ge_induct)
  case base
  then show ?case by simp
next
  case (step i)
  then show ?case using DayFromYear_mono_step[of i] by simp
qed

lemma DayFromYear_strict: "y < z \<Longrightarrow> DayFromYear y < DayFromYear z"
  using DayFromYear_mono[of "y + 1" z] DayFromYear_mono_step[of y] by simp











lemma Day_MakeDate: "0 \<le> tm \<Longrightarrow> tm < msPerDay \<Longrightarrow> Day (MakeDate d tm) = d"
  by (simp add: Day_def MakeDate_def msPerDay_def div_pos_pos_trivial)

lemma TimeWithinDay_MakeDate: "0 \<le> tm \<Longrightarrow> tm < msPerDay \<Longrightarrow> TimeWithinDay (MakeDate d tm) = tm"
  by (simp add: TimeWithinDay_def MakeDate_def msPerDay_def)









lemma TimeClip_eq_None: "TimeClip x = None \<longleftrightarrow> maxTime < \<bar>x\<bar>"
  by (auto simp: TimeClip_def)












































section \<open>Properties of the handlers\<close>



lemma fetchAndRespond_200:
  assumes "fetchAndRespond tza env cache v = (Returned r, cache', tr)" "status r = 200"
  shows "populated cache' \<and> r = cachedResponse cache'"
  using assms
  by (auto simp: fetchAndRespond_def Let_def populated_def cachedResponse_def
      split: sum.splits option.splits prod.splits)

lemma handler_200:
  assumes "getAnnualLeaveHandler JSON_parse tza env cache req = (Returned r, cache', tr)"
    "status r = 200"
  shows "populated cache' \<and> r = cachedResponse cache'"
  using assms fetchAndRespond_200
  by (auto simp: getAnnualLeaveHandler_def populated_def cachedResponse_def
      split: sum.splits option.splits if_splits)


lemma example_first_invocation:
  "getAnnualLeaveHandler noParse 0 exampleEnv initialCache (requestOf ''AB'') =
     (Returned exampleResponse, exampleCache,
      [KeyVaultGetSecret, SqlTeam, SqlAnnualLeave, SqlFutureLeave, SqlUserAnnualLeave])"
  by code_simp









lemma error_mapping_unparsable:
  assumes "getRequestBody JSON_parse req = Inl e"
  shows "getAnnualLeaveHandler JSON_parse tza env cache req = (Returned invalidBody, cache, [])"
  using assms by (simp add: getAnnualLeaveHandler_def invalidBody_def)

lemma error_mapping_missing_initials:
  assumes "getRequestBody JSON_parse req = Inr b" "b \<noteq> JNull"
    "\<not> (\<exists>v. getInitials b = Inr (Some v) \<and> truthy v)"
  shows "getAnnualLeaveHandler JSON_parse tza env cache req = (Returned missingInitials, cache, [])"
  using assms
  by (cases b)
    (auto simp: getAnnualLeaveHandler_def missingInitials_def getInitials_def truthyOpt_def
      split: option.splits)

lemma error_mapping_processing:
  "\<exists>r cache' tr. fetchAndRespond tza env cache v = (Returned r, cache', tr) \<and>
      (status r = 200 \<or> r = processingFailed)"
  by (auto simp: fetchAndRespond_def Let_def processingFailed_def
      split: sum.splits option.splits prod.splits)

lemma error_mapping_processing_failed:
  assumes "\<not> populated cache" "carriesInitials JSON_parse req"
    "\<not> isOK (getSecret env) \<or> (cachedTeamAowMap cache = None \<and> \<not> isOK (teamRows env)) \<or>
     \<not> isOK (annualLeaveRows env) \<or> \<not> isOK (futureLeaveRows env) \<or>
     (\<forall>initials fs fe. \<not> isOK (userLeaveRows env initials fs fe))"
  shows "fst (getAnnualLeaveHandler JSON_parse tza env cache req) = Returned processingFailed"
proof -
  obtain b v where b: "getRequestBody JSON_parse req = Inr b" "getInitials b = Inr (Some v)" "truthy v"
    using assms(2) by (auto simp: carriesInitials_def)
  have h: "getAnnualLeaveHandler JSON_parse tza env cache req = fetchAndRespond tza env cache v"
    using assms(1)
    by (auto simp: getAnnualLeaveHandler_def b truthyOpt_def populated_def split: option.splits)
  have "fst (fetchAndRespond tza env cache v) = Returned processingFailed"
    using assms(3)
    by (auto simp: fetchAndRespond_def Let_def processingFailed_def isOK_def
        queryTeamDataFromSQL_def queryUserAnnualLeave_def
        split: sum.splits option.splits prod.splits)
  then show ?thesis by (simp add: h)
qed

lemma error_mapping_attendance:
  "\<exists>r. getAttendanceHandler tza localeCompare aenv = Returned r \<and>
      (status r = 200 \<or> r = attendanceFailed)"
  by (auto simp: getAttendanceHandler_def Let_def attendanceFailed_def split: sum.splits)

lemma error_mapping_attendance_failed:
  assumes "\<not> isOK (att_getSecret aenv) \<or> \<not> isOK (att_teamRows aenv) \<or>
     (\<forall>p c n. \<not> isOK (att_attendanceRows aenv p c n))"
  shows "getAttendanceHandler tza localeCompare aenv = Returned attendanceFailed"
  using assms
  by (auto simp: getAttendanceHandler_def Let_def attendanceFailed_def isOK_def
      queryAttendance_def queryTeamData_def split: sum.splits)

lemma lastEntry_snoc:
  "lastEntry (rs @ [r]) nm wk =
     (if orEmpty (row_name r) = nm \<and> weekEntryOf r wk \<noteq> None then weekEntryOf r wk
      else lastEntry rs nm wk)"
  by (induction rs) (auto split: option.splits)

lemma lastEntry_Some:
  "lastEntry rows nm wk = Some e \<Longrightarrow>
     wk \<noteq> [] \<and> (\<exists>r \<in> set rows. orEmpty (row_name r) = nm \<and> weekEntryOf r wk = Some e)"
  by (induction rows) (auto simp: weekEntryOf_def split: option.splits if_splits)

lemma map_fst_map_entry: "map fst (AList.map_entry k f xs) = map fst xs"
  by (induction xs) auto

lemma setWeek_keys: "map fst (setWeek nm wk e m) = map fst m"
  by (simp add: setWeek_def map_fst_map_entry)

lemma setWeek_map_of:
  "map_of (setWeek nm wk e m) k =
     (if k = nm then map_option (\<lambda>p. p\<lparr>weeks := AList.update wk e (weeks p)\<rparr>) (map_of m nm)
      else map_of m k)"
  by (simp add: setWeek_def map_of_map_entry split: option.splits)

lemma onRow_keys:
  "map fst (onRow m r) =
     (if map_of m (orEmpty (row_name r)) = None then map fst m @ [orEmpty (row_name r)]
      else map fst m)"
  by (simp add: onRow_def Let_def setWeek_keys)

lemma map_of_append_new:
  "map_of m k = None \<Longrightarrow> map_of (m @ [(k, v)]) k' = (if k' = k then Some v else map_of m k')"
  by (induction m) auto

lemma onRow_map_of:
  "map_of (onRow m r) k =
     (if k = orEmpty (row_name r)
      then Some ((rowPerson m r)\<lparr>weeks := rowWeeks r (weeks (rowPerson m r))\<rparr>)
      else map_of m k)"
proof -
  define nm where "nm = orEmpty (row_name r)"
  define m1 where "m1 = (if map_of m nm = None
      then m @ [(nm, \<lparr>name = nm, level = orEmpty (row_Level r), weeks = []\<rparr>)] else m)"
  have m1: "map_of m1 k' = (if k' = nm then Some (rowPerson m r) else map_of m k')" for k'
    by (cases "map_of m nm")
      (simp_all add: m1_def map_of_append_new rowPerson_def nm_def del: map_of_append)
  define ec where "ec = \<lparr>iso = orZero (row_current_iso r),
      attendance = orEmpty (row_current_attendance r)\<rparr>"
  define en where "en = \<lparr>iso = orZero (row_next_iso r),
      attendance = orEmpty (row_next_attendance r)\<rparr>"
  define m2 where "m2 = (if orEmpty (row_current_week r) \<noteq> []
      then setWeek nm (orEmpty (row_current_week r)) ec m1 else m1)"
  define m3 where "m3 = (if orEmpty (row_next_week r) \<noteq> []
      then setWeek nm (orEmpty (row_next_week r)) en m2 else m2)"
  have o: "onRow m r = m3"
    by (simp add: onRow_def Let_def m3_def m2_def m1_def ec_def en_def nm_def)
  have "map_of m3 k = (if k = nm
      then Some ((rowPerson m r)\<lparr>weeks := rowWeeks r (weeks (rowPerson m r))\<rparr>)
      else map_of m k)"
    by (simp add: m3_def m2_def setWeek_map_of m1 rowWeeks_def Let_def ec_def en_def)
  then show ?thesis by (simp add: o nm_def)
qed

lemma rowWeeks_map_of:
  "map_of (rowWeeks r ws) wk =
     (case weekEntryOf r wk of Some e \<Rightarrow> Some e | None \<Rightarrow> map_of ws wk)"
  by (auto simp: rowWeeks_def Let_def weekEntryOf_def AList.update_conv')

lemma rowWeeks_distinct: "distinct (map fst ws) \<Longrightarrow> distinct (map fst (rowWeeks r ws))"
  by (simp add: rowWeeks_def Let_def AList.distinct_update)

lemma attInv_empty: "attInv [] []"
  by (simp add: attInv_def)

lemma map_of_None_keys: "map_of m k = None \<longleftrightarrow> k \<notin> set (map fst m)"
  by (simp add: map_of_eq_None_iff)

lemma attInv_step:
  assumes "attInv rows m"
  shows "attInv (rows @ [r]) (onRow m r)"
proof -
  define nm where "nm = orEmpty (row_name r)"
  have d: "distinct (map fst m)"
    and ks: "set (map fst m) = (\<lambda>r. orEmpty (row_name r)) ` set rows"
    and es: "\<And>k p. map_of m k = Some p \<Longrightarrow>
        name p = k \<and> distinct (map fst (weeks p)) \<and>
        (\<forall>wk. map_of (weeks p) wk = lastEntry rows k wk)"
    using assms by (auto simp: attInv_def)
  have p0: "name (rowPerson m r) = nm \<and> distinct (map fst (weeks (rowPerson m r))) \<and>
      (\<forall>wk. map_of (weeks (rowPerson m r)) wk = lastEntry rows nm wk)"
  proof (cases "map_of m nm")
    case None
    then have "nm \<notin> (\<lambda>r. orEmpty (row_name r)) ` set rows"
      using ks by (simp add: map_of_None_keys)
    then have "lastEntry rows nm wk = None" for wk
      using lastEntry_Some[of rows nm wk] by (cases "lastEntry rows nm wk") auto
    then show ?thesis using None by (simp add: rowPerson_def nm_def)
  next
    case (Some p)
    then show ?thesis using es[OF Some] by (simp add: rowPerson_def nm_def)
  qed
  have 1: "distinct (map fst (onRow m r))"
    using d by (auto simp: onRow_keys map_of_None_keys)
  have 2: "set (map fst (onRow m r)) = (\<lambda>r. orEmpty (row_name r)) ` set (rows @ [r])"
    using ks by (auto simp: onRow_keys map_of_None_keys)
  have 3: "name p = k \<and> distinct (map fst (weeks p)) \<and>
        (\<forall>wk. map_of (weeks p) wk = lastEntry (rows @ [r]) k wk)"
    if "map_of (onRow m r) k = Some p" for k p
  proof (cases "k = nm")
    case True
    then have p: "p = (rowPerson m r)\<lparr>weeks := rowWeeks r (weeks (rowPerson m r))\<rparr>"
      using that by (simp add: onRow_map_of nm_def)
    show ?thesis
      using p0 True
      by (auto simp: p rowWeeks_distinct rowWeeks_map_of lastEntry_snoc nm_def
          split: option.splits)
  next
    case False
    then have "map_of m k = Some p" using that by (simp add: onRow_map_of nm_def)
    then show ?thesis using es False by (simp add: lastEntry_snoc nm_def)
  qed
  show ?thesis unfolding attInv_def using 1 2 3 by blast
qed

lemma attInv_foldl: "attInv rows (foldl onRow [] rows)"
proof (induction rows rule: rev_induct)
  case Nil
  then show ?case by (simp add: attInv_empty)
next
  case (snoc r rows)
  then show ?case by (simp add: attInv_step)
qed

lemma set_insertBy: "set (insertBy cmp x ys) = insert x (set ys)"
  by (induction ys) auto

lemma set_sortBy: "set (sortBy cmp xs) = set xs"
  by (induction xs) (simp_all add: sortBy_def set_insertBy)

lemma distinct_map_insertBy:
  "distinct (map f (insertBy cmp x ys)) \<longleftrightarrow> f x \<notin> f ` set ys \<and> distinct (map f ys)"
  by (induction ys) (auto simp: set_insertBy)

lemma distinct_map_sortBy: "distinct (map f (sortBy cmp xs)) \<longleftrightarrow> distinct (map f xs)"
proof (induction xs)
  case Nil
  then show ?case by (simp add: sortBy_def)
next
  case (Cons x xs)
  have "sortBy cmp (x # xs) = insertBy cmp x (sortBy cmp xs)" by (simp add: sortBy_def)
  then show ?case using Cons by (simp add: distinct_map_insertBy set_sortBy)
qed

lemma sorted_insertBy:
  assumes tot: "\<And>a b. cmp a b \<le> 0 \<or> cmp b a \<le> 0"
    and trans: "\<And>a b c. cmp a b \<le> 0 \<Longrightarrow> cmp b c \<le> 0 \<Longrightarrow> cmp a c \<le> 0"
  shows "sorted_wrt (\<lambda>a b. cmp a b \<le> 0) ys \<Longrightarrow> sorted_wrt (\<lambda>a b. cmp a b \<le> 0) (insertBy cmp x ys)"
proof (induction ys)
  case Nil
  then show ?case by simp
next
  case (Cons y ys)
  show ?case
  proof (cases "cmp x y \<le> 0")
    case True
    then have "\<forall>z \<in> set ys. cmp x z \<le> 0" using Cons.prems trans by auto
    then show ?thesis using True Cons.prems by simp
  next
    case False
    then have "cmp y x \<le> 0" using tot by blast
    then show ?thesis using False Cons by (auto simp: set_insertBy)
  qed
qed

lemma sorted_sortBy:
  assumes tot: "\<And>a b. cmp a b \<le> 0 \<or> cmp b a \<le> 0"
    and trans: "\<And>a b c. cmp a b \<le> 0 \<Longrightarrow> cmp b c \<le> 0 \<Longrightarrow> cmp a c \<le> 0"
  shows "sorted_wrt (\<lambda>a b. cmp a b \<le> 0) (sortBy cmp xs)"
proof (induction xs)
  case Nil
  then show ?case by (simp add: sortBy_def)
next
  case (Cons x xs)
  have "sortBy cmp (x # xs) = insertBy cmp x (sortBy cmp xs)" by (simp add: sortBy_def)
  then show ?case using sorted_insertBy[of cmp, OF tot trans Cons] by simp
qed

lemma attInv_values:
  assumes "attInv rows m"
  shows "distinct (map name (map snd m))"
    and "name ` set (map snd m) = (\<lambda>r. orEmpty (row_name r)) ` set rows"
    and "\<And>p. p \<in> set (map snd m) \<Longrightarrow>
           distinct (map fst (weeks p)) \<and> (\<forall>wk. map_of (weeks p) wk = lastEntry rows (name p) wk)"
proof -
  have d: "distinct (map fst m)"
    and ks: "set (map fst m) = (\<lambda>r. orEmpty (row_name r)) ` set rows"
    and es: "\<And>k p. map_of m k = Some p \<Longrightarrow>
        name p = k \<and> distinct (map fst (weeks p)) \<and>
        (\<forall>wk. map_of (weeks p) wk = lastEntry rows k wk)"
    using assms by (auto simp: attInv_def)
  have mem: "map_of m k = Some p" if "(k, p) \<in> set m" for k p
    using d that by simp
  have nm: "name (snd kp) = fst kp" if "kp \<in> set m" for kp
    using es[OF mem[of "fst kp" "snd kp"]] that by simp
  then have e: "map name (map snd m) = map fst m" by simp
  show "distinct (map name (map snd m))" using d by (simp only: e)
  show "name ` set (map snd m) = (\<lambda>r. orEmpty (row_name r)) ` set rows"
  proof -
    have "name ` set (map snd m) = set (map name (map snd m))" by (simp only: set_map)
    also have "\<dots> = set (map fst m)" by (simp only: e)
    finally show ?thesis using ks by simp
  qed
  show "distinct (map fst (weeks p)) \<and> (\<forall>wk. map_of (weeks p) wk = lastEntry rows (name p) wk)"
    if pm: "p \<in> set (map snd m)" for p
  proof -
    obtain k where k: "(k, p) \<in> set m" using pm by force
    have "name p = k" using es[OF mem[OF k]] by simp
    then show ?thesis using es[OF mem[OF k]] by simp
  qed
qed

lemma compareChars_total: "compareChars a b \<le> 0 \<or> compareChars b a \<le> 0"
  by (induction a b rule: compareChars.induct) auto

lemma compareChars_trans:
  "compareChars a b \<le> 0 \<Longrightarrow> compareChars b c \<le> 0 \<Longrightarrow> compareChars a c \<le> 0"
proof (induction a b arbitrary: c rule: compareChars.induct)
  case 1
  then show ?case by simp
next
  case (2 y ys)
  then show ?case by (cases c) simp_all
next
  case (3 x xs)
  then show ?case by simp
next
  case (4 x xs y ys)
  show ?case
  proof (cases c)
    case Nil
    then show ?thesis using "4.prems" by simp
  next
    case (Cons z zs)
    have xy: "charCode x \<le> charCode y"
      using "4.prems"(1) by (simp split: if_splits)
    have yz: "charCode y \<le> charCode z"
      using "4.prems"(2) by (simp add: Cons split: if_splits)
    show ?thesis
    proof (cases "charCode x < charCode z")
      case True
      then show ?thesis by (simp add: Cons)
    next
      case False
      then have e: "charCode x = charCode y" "charCode y = charCode z" using xy yz by simp_all
      then have "compareChars xs ys \<le> 0" "compareChars ys zs \<le> 0"
        using "4.prems" by (simp_all add: Cons)
      then have "compareChars xs zs \<le> 0" using "4.IH" e by simp
      then show ?thesis using e by (simp add: Cons)
    qed
  qed
qed

lemma weekEntryOf_Some:
  "weekEntryOf r wk = Some e \<Longrightarrow>
     wk \<noteq> [] \<and> (orEmpty (row_current_week r) = wk \<or> orEmpty (row_next_week r) = wk)"
  by (auto simp: weekEntryOf_def split: if_splits)

lemma example_attendees: "queryAttendance_rows compareChars exampleRows = exampleAttendees"
  by code_simp




subsection \<open>Totals\<close>

lemma orEmpty_nonempty: "orEmpty v \<noteq> [] \<longleftrightarrow> (\<exists>s. v = Some s \<and> s \<noteq> [])"
  by (cases v) (simp_all add: orEmpty_def)

lemma leaveTypeIs_orEmpty:
  "hasLeaveType e \<Longrightarrow> toLowerCase (orEmpty (leave_type e)) = ty \<longleftrightarrow> leaveTypeIs ty e"
  by (auto simp: hasLeaveType_def leaveTypeIs_def orEmpty_def)

lemma leaveTypeIs_hasLeaveType: "leaveTypeIs ty e \<Longrightarrow> hasLeaveType e"
  by (auto simp: hasLeaveType_def leaveTypeIs_def)

lemma leaveTypeIs_unique: "leaveTypeIs a e \<Longrightarrow> leaveTypeIs b e \<Longrightarrow> a = b"
  by (auto simp: leaveTypeIs_def)

text \<open>\<open>addEntry\<close> in terms of the conditions of the claim.\<close>

lemma addEntry_conditions:
  "addEntry t e =
     (if hasLeaveType e then
        (let t1 = (if leaveTypeIs ''standard'' e \<and> statusIs ''booked'' e
                   then t\<lparr>standard := standard t + days_taken e\<rparr>
                   else if leaveTypeIs ''unpaid'' e then t\<lparr>unpaid := unpaid t + days_taken e\<rparr>
                   else if leaveTypeIs ''purchase'' e then t\<lparr>purchase := purchase t + days_taken e\<rparr>
                   else t)
         in if statusIs ''rejected'' e \<and> hasRejectionNotes e
            then t1\<lparr>rejected := rejected t1 + days_taken e\<rparr>
            else t1)
      else t)"
proof (cases "hasLeaveType e")
  case True
  then have a: "orEmpty (leave_type e) \<noteq> []" by (simp add: orEmpty_nonempty hasLeaveType_def)
  show ?thesis
    unfolding addEntry_def Let_def leaveTypeIs_orEmpty[OF True]
    using True a by (simp only: statusIs_def hasRejectionNotes_def orEmpty_nonempty if_True)
next
  case False
  then have "\<not> orEmpty (leave_type e) \<noteq> []" by (simp add: orEmpty_nonempty hasLeaveType_def)
  then show ?thesis using False unfolding addEntry_def by (simp only: if_False)
qed

lemma addEntry_fields:
  "standard (addEntry t e) = standard t + standardDays e"
  "unpaid (addEntry t e) = unpaid t + unpaidDays e"
  "purchase (addEntry t e) = purchase t + purchaseDays e"
  "rejected (addEntry t e) = rejected t + rejectedDays e"
proof -
  define S where "S = leaveTypeIs ''standard'' e"
  define U where "U = leaveTypeIs ''unpaid'' e"
  define P where "P = leaveTypeIs ''purchase'' e"
  define H where "H = hasLeaveType e"
  define B where "B = statusIs ''booked'' e"
  define R where "R = (statusIs ''rejected'' e \<and> hasRejectionNotes e)"
  have x: "\<not> (S \<and> U)" "\<not> (S \<and> P)" "\<not> (U \<and> P)"
    using leaveTypeIs_unique[of "''standard''" e "''unpaid''"]
      leaveTypeIs_unique[of "''standard''" e "''purchase''"]
      leaveTypeIs_unique[of "''unpaid''" e "''purchase''"]
    by (auto simp: S_def U_def P_def)
  have h: "S \<longrightarrow> H" "U \<longrightarrow> H" "P \<longrightarrow> H"
    using leaveTypeIs_hasLeaveType by (auto simp: S_def U_def P_def H_def)
  have a: "addEntry t e =
     (if H then
        (let t1 = (if S \<and> B then t\<lparr>standard := standard t + days_taken e\<rparr>
                   else if U then t\<lparr>unpaid := unpaid t + days_taken e\<rparr>
                   else if P then t\<lparr>purchase := purchase t + days_taken e\<rparr>
                   else t)
         in if R then t1\<lparr>rejected := rejected t1 + days_taken e\<rparr> else t1)
      else t)"
    unfolding S_def U_def P_def H_def B_def R_def by (rule addEntry_conditions)
  have s: "standardDays e = (if S \<and> B then days_taken e else 0)"
    "unpaidDays e = (if U then days_taken e else 0)"
    "purchaseDays e = (if P then days_taken e else 0)"
    "rejectedDays e = (if H \<and> R then days_taken e else 0)"
    by (simp_all add: standardDays_def unpaidDays_def purchaseDays_def rejectedDays_def
        S_def U_def P_def H_def B_def R_def)
  show "standard (addEntry t e) = standard t + standardDays e"
    unfolding a s using x h by (cases H; cases S; cases U; cases P; cases B; cases R) simp_all
  show "unpaid (addEntry t e) = unpaid t + unpaidDays e"
    unfolding a s using x h by (cases H; cases S; cases U; cases P; cases B; cases R) simp_all
  show "purchase (addEntry t e) = purchase t + purchaseDays e"
    unfolding a s using x h by (cases H; cases S; cases U; cases P; cases B; cases R) simp_all
  show "rejected (addEntry t e) = rejected t + rejectedDays e"
    unfolding a s using x h by (cases H; cases S; cases U; cases P; cases B; cases R) simp_all
qed

lemma foldl_addEntry:
  "standard (foldl addEntry t es) = standard t + sum_list (map standardDays es)"
  "unpaid (foldl addEntry t es) = unpaid t + sum_list (map unpaidDays es)"
  "purchase (foldl addEntry t es) = purchase t + sum_list (map purchaseDays es)"
  "rejected (foldl addEntry t es) = rejected t + sum_list (map rejectedDays es)"
  by (induction es arbitrary: t; simp add: addEntry_fields)+

lemma leave_type_None:
  "leave_type e = None \<Longrightarrow>
     standardDays e = 0 \<and> unpaidDays e = 0 \<and> purchaseDays e = 0 \<and> rejectedDays e = 0"
  by (simp add: standardDays_def unpaidDays_def purchaseDays_def rejectedDays_def leaveTypeIs_def
      hasLeaveType_def)

lemma both_totals:
  "unpaidDays (leaveOf (Some ''Unpaid'') ''Rejected'' (Some ''too late'') 1) = 1 \<and>
   rejectedDays (leaveOf (Some ''Unpaid'') ''Rejected'' (Some ''too late'') 1) = 1"
  by (simp add: unpaidDays_def rejectedDays_def leaveTypeIs_def hasLeaveType_def statusIs_def
      hasRejectionNotes_def leaveOf_def toLowerCase_def toLowerChar_def)

lemma example_totals:
  "calculateTotals exampleEntries =
     \<lparr>standard = 5, unpaid = 1, purchase = 3, rejected = 3 / 2, totals_AOW = None\<rparr>"
  by code_simp

lemma example_user_details:
  "queryUserAnnualLeave 0 totalsEnv exampleCache (JString ''AB'') = Inr exampleUserDetails"
  by (simp add: queryUserAnnualLeave_def Let_def totalsEnv_def exampleEnv_def example_totals
      exampleCache_def exampleUserDetails_def mapGetJ_def mapGet_def orNull_def)

lemma example_entry_kinds:
  "leaveTypeIs ''standard'' (leaveOf (Some ''Standard'') ''Booked'' None 5)"
  "statusIs ''booked'' (leaveOf (Some ''Standard'') ''Booked'' None 5)"
  "leaveTypeIs ''unpaid'' (leaveOf (Some ''Unpaid'') ''Rejected'' (Some ''too late'') 1)"
  "leaveTypeIs ''purchase'' (leaveOf (Some ''PURCHASE'') ''booked'' None 3)"
  "rejectedDays (leaveOf (Some ''standard'') ''rejected'' (Some ''overlap'') (1 / 2)) = 1 / 2"
  "leave_type (leaveOf None ''rejected'' (Some ''no type'') 4) = None"
  by (simp_all add: leaveTypeIs_def statusIs_def rejectedDays_def hasLeaveType_def
      hasRejectionNotes_def leaveOf_def toLowerCase_def toLowerChar_def)

subsection \<open>Approvers\<close>

lemma toLowerChar_comma: "toLowerChar c = CHR '','' \<longleftrightarrow> c = CHR '',''"
  by (simp add: toLowerChar_def)

lemma toLowerChar_space: "isWhiteSpace (toLowerChar c) = isWhiteSpace c"
  by (simp add: toLowerChar_def isWhiteSpace_def)

lemma splitOn_nonempty: "splitOn sep s \<noteq> []"
  by (induction s) (auto split: list.splits)

lemma splitOn_map:
  assumes "\<And>c. f c = sep \<longleftrightarrow> c = sep"
  shows "splitOn sep (map f s) = map (map f) (splitOn sep s)"
proof (induction s)
  case Nil
  then show ?case by simp
next
  case (Cons c cs)
  obtain w ws where w: "splitOn sep cs = w # ws"
    using splitOn_nonempty[of sep cs] by (cases "splitOn sep cs") auto
  show ?case using Cons w assms by simp
qed

lemma dropWhile_map_pred:
  assumes "\<And>c. P (f c) = P c"
  shows "dropWhile P (map f s) = map f (dropWhile P s)"
  using assms by (induction s) simp_all

lemma trim_map:
  assumes "\<And>c. isWhiteSpace (f c) = isWhiteSpace c"
  shows "trim (map f s) = map f (trim s)"
  using assms by (simp add: trim_def dropWhile_map_pred rev_map)

lemma aowItems_lower: "map trim (splitOn CHR '','' (toLowerCase aow)) = aowItems aow"
proof -
  have "splitOn CHR '','' (map toLowerChar aow) = map (map toLowerChar) (splitOn CHR '','' aow)"
    by (rule splitOn_map) (rule toLowerChar_comma)
  moreover have "trim (map toLowerChar item) = map toLowerChar (trim item)" for item
    by (rule trim_map) (rule toLowerChar_space)
  ultimately show ?thesis by (simp add: aowItems_def toLowerCase_def)
qed

lemma determineApprovers_items:
  "determineApprovers aow =
     [''LZ'', if ''construction'' \<in> set (aowItems aow) then ''JW'' else ''AC'']"
  unfolding determineApprovers_def Let_def aowItems_lower ..

lemma enhance_enhanced:
  "list_all (enhanced team) (enhanceLeaveWithAOWAndApprover team es)"
  by (simp add: enhanceLeaveWithAOWAndApprover_def list_all_iff enhanced_def)

lemma fetchAndRespond_enhanced:
  assumes "enhancedCache cache"
  shows "enhancedCache (fst (snd (fetchAndRespond tza env cache v)))"
proof (cases "getSecret env")
  case (Inl err)
  then show ?thesis using assms by (simp add: fetchAndRespond_def Let_def)
next
  case s: (Inr secret)
  show ?thesis
  proof (cases "cachedTeamAowMap cache")
    case (Some team)
    have c: "enhancedCache (cache\<lparr>cachedAnnualLeave := Some (enhanceLeaveWithAOWAndApprover team a),
         cachedFutureLeave := Some (enhanceLeaveWithAOWAndApprover team f),
         cachedUserDetails := u\<rparr>)" for a f u
      using Some by (simp add: enhancedCache_def enhance_enhanced)
    show ?thesis using assms c
      by (auto simp: fetchAndRespond_def Let_def s Some split: sum.splits)
  next
    case None
    then have n: "cachedAnnualLeave cache = None" "cachedFutureLeave cache = None"
      using assms by (simp_all add: enhancedCache_def)
    show ?thesis
    proof (cases "queryTeamDataFromSQL env")
      case (Inl err)
      then show ?thesis using assms by (simp add: fetchAndRespond_def Let_def s None)
    next
      case (Inr team)
      have c1: "enhancedCache (cache\<lparr>cachedTeamAowMap := Some team\<rparr>)"
        using n by (simp add: enhancedCache_def)
      have c2: "enhancedCache (cache\<lparr>cachedTeamAowMap := Some team,
         cachedAnnualLeave := Some (enhanceLeaveWithAOWAndApprover team a),
         cachedFutureLeave := Some (enhanceLeaveWithAOWAndApprover team f),
         cachedUserDetails := u\<rparr>)" for a f u
        by (simp add: enhancedCache_def enhance_enhanced)
      show ?thesis using c1 c2
        by (auto simp: fetchAndRespond_def Let_def s None Inr split: sum.splits)
    qed
  qed
qed

lemma handler_enhanced:
  assumes "enhancedCache cache"
  shows "enhancedCache (fst (snd (getAnnualLeaveHandler JSON_parse tza env cache req)))"
  using assms fetchAndRespond_enhanced[OF assms]
  by (auto simp: getAnnualLeaveHandler_def split: sum.splits option.splits)

lemma initialCache_enhanced: "enhancedCache initialCache"
  by (simp add: enhancedCache_def initialCache_def)

lemma runInvocations_enhanced:
  "enhancedCache cache \<Longrightarrow> enhancedCache (runInvocations JSON_parse tza cache invs)"
proof (induction invs arbitrary: cache)
  case Nil
  then show ?case by simp
next
  case (Cons a invs)
  obtain env req where a: "a = (env, req)" by (cases a)
  show ?case using Cons.IH[OF handler_enhanced[OF Cons.prems]] by (simp add: a)
qed

lemma jsonField_person: "jsonField ''person'' (json_of_AnnualLeaveRecord e) = Some (JString (person e))"
  by (simp add: jsonField_def json_of_AnnualLeaveRecord_def)

lemma jsonField_approvers:
  "jsonField ''approvers'' (json_of_AnnualLeaveRecord e) =
     map_option (\<lambda>as. JArray (map JString as)) (approvers e)"
  by (simp add: jsonField_def json_of_AnnualLeaveRecord_def json_of_nullable_def
      split: option.splits)

lemma enhanced_json: "enhanced team e \<Longrightarrow> enhancedJson team (json_of_AnnualLeaveRecord e)"
  by (simp add: enhanced_def enhancedJson_def jsonField_person jsonField_approvers)

lemma response_fields:
  "jsonElements (bodyField ''annual_leave'' (JsonText (json_of_AnnualLeaveResponse a f u))) =
     map json_of_AnnualLeaveRecord a"
  "jsonElements (bodyField ''future_leave'' (JsonText (json_of_AnnualLeaveResponse a f u))) =
     map json_of_AnnualLeaveRecord f"
  "userLeaveEntries (JsonText (json_of_AnnualLeaveResponse a f u)) =
     map json_of_AnnualLeaveRecord (leaveEntries u)"
  by (simp_all add: jsonElements_def bodyField_def jsonField_def json_of_AnnualLeaveResponse_def
      userLeaveEntries_def json_of_UserDetails_def)

lemma response_enhanced:
  assumes "getAnnualLeaveHandler JSON_parse tza env
             (runInvocations JSON_parse tza initialCache invs) req = (Returned r, cache', tr)"
    "status r = 200"
  shows "\<exists>team. cachedTeamAowMap cache' = Some team \<and>
     list_all (enhancedJson team) (jsonElements (bodyField ''annual_leave'' (body r))) \<and>
     list_all (enhancedJson team) (jsonElements (bodyField ''future_leave'' (body r)))"
proof -
  have p: "populated cache'" "r = cachedResponse cache'"
    using handler_200[OF assms] by simp_all
  have "enhancedCache (fst (snd (getAnnualLeaveHandler JSON_parse tza env
             (runInvocations JSON_parse tza initialCache invs) req)))"
    by (rule handler_enhanced) (rule runInvocations_enhanced, rule initialCache_enhanced)
  then have e: "enhancedCache cache'" using assms(1) by simp
  obtain team a f u where c: "cachedTeamAowMap cache' = Some team" "cachedAnnualLeave cache' = Some a"
    "cachedFutureLeave cache' = Some f" "cachedUserDetails cache' = Some u"
    using p(1) by (auto simp: populated_def)
  have l: "list_all (enhanced team) a" "list_all (enhanced team) f"
    using e c by (simp_all add: enhancedCache_def)
  have b: "body r = JsonText (json_of_AnnualLeaveResponse a f u)"
    using p(2) c by (simp add: cachedResponse_def)
  show ?thesis using l c(1) enhanced_json
    by (auto simp: b response_fields list_all_iff)
qed

lemma example_items: "aowItems ''Construction, Property'' = [''construction'', ''property'']"
  by code_simp

lemma example_response_entries:
  "jsonElements (bodyField ''annual_leave'' (body exampleResponse)) =
     [json_of_AnnualLeaveRecord enhancedExampleLeave]"
  "jsonElements (bodyField ''future_leave'' (body exampleResponse)) = []"
  "userLeaveEntries (body exampleResponse) = [json_of_AnnualLeaveRecord exampleLeave]"
  by (simp_all add: exampleResponse_def response_fields exampleCache_def enhancedExampleLeave_def)

lemma example_entry_fields:
  "jsonField ''person'' (json_of_AnnualLeaveRecord exampleLeave) = Some (JString ''AB'')"
  "jsonField ''approvers'' (json_of_AnnualLeaveRecord exampleLeave) = None"
  "jsonField ''approvers'' (json_of_AnnualLeaveRecord enhancedExampleLeave) =
     Some (JArray [JString ''LZ'', JString ''JW''])"
  by (simp_all add: jsonField_person jsonField_approvers exampleLeave_def enhancedExampleLeave_def)

section \<open>Properties of the balances list\<close>

lemma computeDueStatus_valid:
  assumes "\<bar>now'\<bar> \<le> maxTime" "Date_parse (bill_due_at bill) = Some due"
  shows "computeDueStatus Date_parse now' bill =
     (let n = dayDifference now' due
      in if 0 < n then dayCount n @ '' overdue''
         else if n < 0 then ''Due in '' @ dayCount (- n)
         else ''Due today'')"
proof -
  have t: "TimeClip now' = Some now'" using assms(1) by (simp add: TimeClip_def)
  have m: "(1000 * 3600 * 24 :: int) = msPerDay" by (simp add: msPerDay_def)
  show ?thesis
    unfolding computeDueStatus_def Let_def t assms(2) getTime_def num_sub_def m dayDifference_def
      dayCount_def
    by (auto simp: abs_if)
qed

lemma computeDueStatus_invalid:
  "Date_parse (bill_due_at bill) = None \<Longrightarrow> computeDueStatus Date_parse now' bill = ''Due today''"
  by (simp add: computeDueStatus_def Let_def getTime_def num_sub_def split: option.splits)

lemma map_enumerate_nth:
  "i < length xs \<Longrightarrow> map (\<lambda>(k, x). f k x) (enumerate 0 xs) ! i = f i (xs ! i)"
  by (simp add: nth_enumerate_eq)

lemma map_enumerate_map:
  "(\<And>k x. g (f k x) = h x) \<Longrightarrow> map g (map (\<lambda>(k, x). f k x) (enumerate n xs)) = map h xs"
  by (induction xs arbitrary: n) simp_all

lemma rendered_text:
  "OutstandingBalancesList toNumber Date_parse clock balances matters =
     TextElement ''No outstanding balances found.'' \<longleftrightarrow>
   (\<forall>b \<in> set balances. \<not> 0 < total_outstanding_balance b)"
  by (auto simp: OutstandingBalancesList_def Let_def filter_empty_conv)

lemma rendered_clients:
  assumes "\<exists>b \<in> set balances. 0 < total_outstanding_balance b"
  shows "\<exists>cards. OutstandingBalancesList toNumber Date_parse clock balances matters = DivElement cards \<and>
     length cards = length (positiveBalances balances) \<and>
     map card_key cards = map balance_id (positiveBalances balances) \<and>
     map card_amount cards = map total_outstanding_balance (positiveBalances balances) \<and>
     (\<forall>c \<in> set cards. 0 < card_amount c) \<and>
     (\<forall>i < length cards.
        cards ! i = clientCard toNumber Date_parse (clock i) matters (positiveBalances balances ! i))"
proof -
  define cards where "cards = map (\<lambda>(i, balance). clientCard toNumber Date_parse (clock i) matters balance)
                   (enumerate 0 (positiveBalances balances))"
  have ne: "positiveBalances balances \<noteq> []"
    using assms by (auto simp: positiveBalances_def filter_empty_conv)
  have r: "OutstandingBalancesList toNumber Date_parse clock balances matters = DivElement cards"
    using ne by (simp add: OutstandingBalancesList_def Let_def cards_def positiveBalances_def)
  have l: "length cards = length (positiveBalances balances)" by (simp add: cards_def)
  have k: "map card_key cards = map balance_id (positiveBalances balances)"
    unfolding cards_def by (rule map_enumerate_map) (simp add: clientCard_def Let_def)
  have a: "map card_amount cards = map total_outstanding_balance (positiveBalances balances)"
    unfolding cards_def by (rule map_enumerate_map) (simp add: clientCard_def Let_def)
  have "set (map card_amount cards) \<subseteq> {x. 0 < x}"
    unfolding a by (auto simp: positiveBalances_def)
  then have p: "\<forall>c \<in> set cards. 0 < card_amount c" by auto
  have n: "\<forall>i < length cards.
        cards ! i = clientCard toNumber Date_parse (clock i) matters (positiveBalances balances ! i)"
    using l unfolding cards_def by (simp add: nth_enumerate_eq)
  show ?thesis using r l k a p n by blast
qed

lemma card_bill_status:
  "j < length (outstanding_bills balance) \<Longrightarrow>
   billrow_dueStatus (card_bills (clientCard toNumber Date_parse clock matters balance) ! j) =
     computeDueStatus Date_parse (clock j) (outstanding_bills balance ! j)"
  by (simp add: clientCard_def Let_def nth_enumerate_eq billRow_def)

lemma example_rendering:
  "OutstandingBalancesList exampleNumber exampleParse exampleClock exampleBalances exampleMatters =
     DivElement exampleCards"
  by code_simp

lemma example_no_balances:
  "OutstandingBalancesList exampleNumber exampleParse exampleClock
     [exampleBalances ! 0, exampleBalances ! 2] exampleMatters =
     TextElement ''No outstanding balances found.''"
  by code_simp

lemma example_day_differences:
  "dayDifference 1736937000000 1736640000000 = 3"
  "dayDifference 1736937000000 1736812800000 = 1"
  "dayDifference 1736937000000 1737014400000 = - 1"
  "dayDifference 1736937000000 1736899200000 = 0"
  by (simp_all add: dayDifference_def msPerDay_def)

lemma example_days: "dayCount 3 = ''3 days''" "dayCount 1 = ''1 day''"
  by code_simp+

lemma example_parse:
  "exampleParse (bill_due_at (billDue i ''2025-01-12'')) = Some 1736640000000"
  "exampleParse (bill_due_at (billDue i ''2025-01-14'')) = Some 1736812800000"
  "exampleParse (bill_due_at (billDue i ''2025-01-16'')) = Some 1737014400000"
  "exampleParse (bill_due_at (billDue i ''2025-01-15'')) = Some 1736899200000"
  "exampleParse (bill_due_at (billDue i ''soon'')) = None"
  by (simp_all add: exampleParse_def billDue_def)

section \<open>Claims about getAttendance.ts\<close>







text \<open>
  C9. For every sequence of result rows, and a \<open>localeCompare\<close> that is a total preorder (any
  two strings are comparable, and the comparison is transitive), the list that
  \<open>queryAttendance\<close> produces has at most one element per name, is sorted ascending by name
  under \<open>localeCompare\<close>, and has one element for each name of the rows. The weeks of an
  element map a week label to what the last row of that name that carried the label assigned
  (within a row the next week is assigned after the current week), so a label is present only
  if some row of that name carried it as a non-empty week string.
\<close>

theorem attendance_list_properties:
  assumes "\<forall>a b. localeCompare a b \<le> 0 \<or> localeCompare b a \<le> 0"
    and "\<forall>a b c. localeCompare a b \<le> 0 \<longrightarrow> localeCompare b c \<le> 0 \<longrightarrow> localeCompare a c \<le> 0"
  shows "distinct (map name (queryAttendance_rows localeCompare rows)) \<and>
     sorted_wrt (\<lambda>a b. localeCompare (name a) (name b) \<le> 0)
       (queryAttendance_rows localeCompare rows) \<and>
     name ` set (queryAttendance_rows localeCompare rows) =
       (\<lambda>r. orEmpty (row_name r)) ` set rows \<and>
     (\<forall>p \<in> set (queryAttendance_rows localeCompare rows).
        distinct (map fst (weeks p)) \<and>
        (\<forall>wk. map_of (weeks p) wk = lastEntry rows (name p) wk) \<and>
        (\<forall>wk \<in> fst ` set (weeks p).
           wk \<noteq> [] \<and>
           (\<exists>r \<in> set rows. orEmpty (row_name r) = name p \<and>
              (orEmpty (row_current_week r) = wk \<or> orEmpty (row_next_week r) = wk))))"
proof -
  define m where "m = foldl onRow [] rows"
  define cmp :: "PersonAttendance \<Rightarrow> PersonAttendance \<Rightarrow> int"
    where "cmp = (\<lambda>a b. localeCompare (name a) (name b))"
  have res: "queryAttendance_rows localeCompare rows = sortBy cmp (map snd m)"
    by (simp add: queryAttendance_rows_def Let_def m_def cmp_def)
  have inv: "attInv rows m" unfolding m_def by (rule attInv_foldl)
  note v = attInv_values[OF inv]
  have tot: "\<And>a b. cmp a b \<le> 0 \<or> cmp b a \<le> 0" using assms(1) by (simp add: cmp_def)
  have trans: "\<And>a b c. cmp a b \<le> 0 \<Longrightarrow> cmp b c \<le> 0 \<Longrightarrow> cmp a c \<le> 0"
    using assms(2) unfolding cmp_def by blast
  have 1: "distinct (map name (queryAttendance_rows localeCompare rows))"
    using v(1) by (simp only: res distinct_map_sortBy)
  have 2: "sorted_wrt (\<lambda>a b. localeCompare (name a) (name b) \<le> 0)
       (queryAttendance_rows localeCompare rows)"
    using sorted_sortBy[of cmp "map snd m", OF tot trans] by (simp add: res cmp_def)
  have 3: "name ` set (queryAttendance_rows localeCompare rows) =
       (\<lambda>r. orEmpty (row_name r)) ` set rows"
    using v(2) by (simp only: res set_sortBy)
  have 4: "distinct (map fst (weeks p)) \<and>
        (\<forall>wk. map_of (weeks p) wk = lastEntry rows (name p) wk) \<and>
        (\<forall>wk \<in> fst ` set (weeks p).
           wk \<noteq> [] \<and>
           (\<exists>r \<in> set rows. orEmpty (row_name r) = name p \<and>
              (orEmpty (row_current_week r) = wk \<or> orEmpty (row_next_week r) = wk)))"
    if p: "p \<in> set (queryAttendance_rows localeCompare rows)" for p
  proof -
    have pm: "p \<in> set (map snd m)" using p by (simp only: res set_sortBy)
    note w = v(3)[OF pm]
    have "wk \<noteq> [] \<and>
           (\<exists>r \<in> set rows. orEmpty (row_name r) = name p \<and>
              (orEmpty (row_current_week r) = wk \<or> orEmpty (row_next_week r) = wk))"
      if wk: "wk \<in> fst ` set (weeks p)" for wk
    proof -
      obtain e where "map_of (weeks p) wk = Some e"
        using wk by (cases "map_of (weeks p) wk") (auto simp: map_of_eq_None_iff)
      then have "lastEntry rows (name p) wk = Some e" using w by simp
      then obtain r where "r \<in> set rows" "orEmpty (row_name r) = name p" "weekEntryOf r wk = Some e"
        using lastEntry_Some by blast
      then show ?thesis using weekEntryOf_Some by blast
    qed
    then show ?thesis using w by blast
  qed
  show ?thesis using 1 2 3 4 by blast
qed

theorem attendance_list_properties_witness:
  "queryAttendance_rows compareChars exampleRows = exampleAttendees \<and>
   distinct (map name exampleAttendees) \<and>
   sorted_wrt (\<lambda>a b. compareChars (name a) (name b) \<le> 0) exampleAttendees \<and>
   name ` set exampleAttendees = (\<lambda>r. orEmpty (row_name r)) ` set exampleRows \<and>
   lastEntry exampleRows ''Bob'' weekB = Some \<lparr>iso = 4, attendance = ''Fri''\<rparr>"
proof -
  have h1: "\<forall>a b. compareChars a b \<le> 0 \<or> compareChars b a \<le> 0"
    using compareChars_total by blast
  have h2: "\<forall>a b c. compareChars a b \<le> 0 \<longrightarrow> compareChars b c \<le> 0 \<longrightarrow> compareChars a c \<le> 0"
    using compareChars_trans by blast
  have l: "lastEntry exampleRows ''Bob'' weekB = Some \<lparr>iso = 4, attendance = ''Fri''\<rparr>"
    by code_simp
  from attendance_list_properties[OF h1 h2, of exampleRows]
  show ?thesis using l by (simp add: example_attendees)
qed

section \<open>Claims about getAnnualLeave.ts\<close>




text \<open>
  C3. The claim holds where the error mapping lemmas above say so (an unparsable body gives
  400, a parsed body other than null without a truthy \<open>initials\<close> gives 400, a failure of any
  later step gives 500, and so does a failure of any step of \<open>getAttendanceHandler\<close>), but
  not for a body that parses to null: \<open>body.initials\<close> is read outside both \<open>try\<close> blocks, and
  for the request body \<open>null\<close> the handler throws a TypeError instead of returning 400.
\<close>

theorem null_body_is_not_mapped:
  assumes "JSON_parse ''null'' = Some JNull"
  shows "getAnnualLeaveHandler JSON_parse tza env cache (BodyStream (Inr [''null''])) =
           (Threw (TypeError ''Cannot read properties of null (reading 'initials')''), cache, []) \<and>
         getAnnualLeaveHandler JSON_parse tza env cache (BodyValue (JString ''null'')) =
           (Threw (TypeError ''Cannot read properties of null (reading 'initials')''), cache, [])"
  using assms by (simp add: getAnnualLeaveHandler_def getRequestBody_def getInitials_def)

theorem null_body_is_not_mapped_witness:
  "parseNullOnly ''null'' = Some JNull \<and>
   getAnnualLeaveHandler parseNullOnly 0 exampleEnv initialCache (BodyStream (Inr [''null''])) =
     (Threw (TypeError ''Cannot read properties of null (reading 'initials')''), initialCache, [])"
proof -
  have h: "parseNullOnly ''null'' = Some JNull" by (simp add: parseNullOnly_def)
  from null_body_is_not_mapped[where JSON_parse=parseNullOnly and tza=0 and env=exampleEnv
      and cache=initialCache, OF h]
  show ?thesis using h by simp
qed

text \<open>
  C4 (as amended). For every AOW string, \<open>determineApprovers\<close> returns exactly a two-element
  list whose first element is \<open>LZ\<close> and whose second element is \<open>JW\<close> if the comma-separated AOW
  list (each item trimmed and lowercased) contains the item \<open>construction\<close>, and \<open>AC\<close>
  otherwise; for the empty string it returns \<open>LZ\<close> and \<open>AC\<close>. In every response with status 200,
  after any sequence of invocations from the initial cache, every entry of \<open>annual_leave\<close> and
  of \<open>future_leave\<close> carries the approvers computed this way from the AOW of its person in the
  cached team map (the empty string when the person has no AOW there).
\<close>

theorem approvers_by_area_of_work:
  "determineApprovers aow =
     [''LZ'', if ''construction'' \<in> set (aowItems aow) then ''JW'' else ''AC''] \<and>
   determineApprovers [] = [''LZ'', ''AC''] \<and>
   (getAnnualLeaveHandler JSON_parse tza env
      (runInvocations JSON_parse tza initialCache invs) req = (Returned r, cache', tr) \<and>
    status r = 200 \<longrightarrow>
    (\<exists>team. cachedTeamAowMap cache' = Some team \<and>
       list_all (enhancedJson team) (jsonElements (bodyField ''annual_leave'' (body r))) \<and>
       list_all (enhancedJson team) (jsonElements (bodyField ''future_leave'' (body r)))))"
proof -
  have "aowItems [] = [[]]" by (simp add: aowItems_def trim_def toLowerCase_def)
  then have "determineApprovers [] = [''LZ'', ''AC'']"
    by (simp add: determineApprovers_items)
  then show ?thesis
    using determineApprovers_items[of aow] response_enhanced by blast
qed

theorem approvers_by_area_of_work_witness:
  "getAnnualLeaveHandler noParse 0 exampleEnv initialCache (requestOf ''AB'') =
     (Returned exampleResponse, exampleCache,
      [KeyVaultGetSecret, SqlTeam, SqlAnnualLeave, SqlFutureLeave, SqlUserAnnualLeave]) \<and>
   status exampleResponse = 200 \<and>
   cachedTeamAowMap exampleCache = Some [(''AB'', Some ''Construction, Property'')] \<and>
   jsonElements (bodyField ''annual_leave'' (body exampleResponse)) =
     [json_of_AnnualLeaveRecord enhancedExampleLeave] \<and>
   enhancedJson [(''AB'', Some ''Construction, Property'')]
     (json_of_AnnualLeaveRecord enhancedExampleLeave) \<and>
   jsonField ''approvers'' (json_of_AnnualLeaveRecord enhancedExampleLeave) =
     Some (JArray [JString ''LZ'', JString ''JW'']) \<and>
   aowItems ''Construction, Property'' = [''construction'', ''property''] \<and>
   determineApprovers ''Construction, Property'' = [''LZ'', ''JW'']"
proof -
  have s: "status exampleResponse = 200" by (simp add: exampleResponse_def)
  have c: "cachedTeamAowMap exampleCache = Some [(''AB'', Some ''Construction, Property'')]"
    by (simp add: exampleCache_def)
  have f: "getAnnualLeaveHandler noParse 0 exampleEnv (runInvocations noParse 0 initialCache [])
      (requestOf ''AB'') = (Returned exampleResponse, exampleCache,
      [KeyVaultGetSecret, SqlTeam, SqlAnnualLeave, SqlFutureLeave, SqlUserAnnualLeave])"
    using example_first_invocation by simp
  note t = approvers_by_area_of_work[where aow="''Construction, Property''" and JSON_parse=noParse
      and tza=0 and env=exampleEnv and invs="[]" and req="requestOf ''AB''" and r=exampleResponse
      and cache'=exampleCache
      and tr="[KeyVaultGetSecret, SqlTeam, SqlAnnualLeave, SqlFutureLeave, SqlUserAnnualLeave]"]
  from t f s c have e: "enhancedJson [(''AB'', Some ''Construction, Property'')]
     (json_of_AnnualLeaveRecord enhancedExampleLeave)"
    by (simp add: example_response_entries)
  from t have d: "determineApprovers ''Construction, Property'' = [''LZ'', ''JW'']"
    by (simp add: example_items)
  show ?thesis
    using example_first_invocation s c e d example_response_entries(1) example_entry_fields(3)
      example_items by simp
qed

text \<open>
  The claim as stated, for every leave entry in the response, fails for the entries of
  \<open>user_details.leaveEntries\<close>: they are returned as queried, and the entry of the person \<open>AB\<close>
  in the response below has no \<open>approvers\<close>.
\<close>

theorem user_details_entries_counterexample:
  "getAnnualLeaveHandler noParse 0 exampleEnv initialCache (requestOf ''AB'') =
     (Returned exampleResponse, exampleCache,
      [KeyVaultGetSecret, SqlTeam, SqlAnnualLeave, SqlFutureLeave, SqlUserAnnualLeave]) \<and>
   status exampleResponse = 200 \<and>
   userLeaveEntries (body exampleResponse) = [json_of_AnnualLeaveRecord exampleLeave] \<and>
   jsonField ''person'' (json_of_AnnualLeaveRecord exampleLeave) = Some (JString ''AB'') \<and>
   jsonField ''approvers'' (json_of_AnnualLeaveRecord exampleLeave) = None"
  using example_first_invocation example_response_entries(3) example_entry_fields(1,2)
  by (simp add: exampleResponse_def)





text \<open>
  C8. The totals of \<open>calculateTotals\<close>, and so those of the user details that
  \<open>queryUserAnnualLeave\<close> returns, are sums of \<open>days_taken\<close> over the entries: \<open>standard\<close> over
  the entries of type standard with status booked, \<open>unpaid\<close> over the entries of type unpaid,
  \<open>purchase\<close> over the entries of type purchase, and \<open>rejected\<close> over the entries with a leave
  type, status rejected and non-empty rejection notes, types and statuses being compared
  case-insensitively. An entry contributes to \<open>rejected\<close> only with status rejected and
  rejection notes, an entry without a leave type contributes to no total, and an entry can
  contribute to a type total and to \<open>rejected\<close> at once.
\<close>

theorem totals_by_type_and_status:
  "standard (calculateTotals es) = sum_list (map standardDays es) \<and>
   unpaid (calculateTotals es) = sum_list (map unpaidDays es) \<and>
   purchase (calculateTotals es) = sum_list (map purchaseDays es) \<and>
   rejected (calculateTotals es) = sum_list (map rejectedDays es) \<and>
   (queryUserAnnualLeave tza env cache initials = Inr ud \<longrightarrow>
      standard (totals ud) = sum_list (map standardDays (leaveEntries ud)) \<and>
      unpaid (totals ud) = sum_list (map unpaidDays (leaveEntries ud)) \<and>
      purchase (totals ud) = sum_list (map purchaseDays (leaveEntries ud)) \<and>
      rejected (totals ud) = sum_list (map rejectedDays (leaveEntries ud))) \<and>
   (standardDays s \<noteq> 0 \<longrightarrow> leaveTypeIs ''standard'' s \<and> statusIs ''booked'' s) \<and>
   (leaveTypeIs ''standard'' s \<and> statusIs ''booked'' s \<longrightarrow> standardDays s = days_taken s) \<and>
   (leaveTypeIs ''unpaid'' u \<longrightarrow> unpaidDays u = days_taken u) \<and>
   (leaveTypeIs ''purchase'' p \<longrightarrow> purchaseDays p = days_taken p) \<and>
   (rejectedDays r \<noteq> 0 \<longrightarrow> statusIs ''rejected'' r \<and> rejection_notes r \<noteq> None) \<and>
   (leave_type n = None \<longrightarrow>
      standardDays n = 0 \<and> unpaidDays n = 0 \<and> purchaseDays n = 0 \<and> rejectedDays n = 0) \<and>
   (\<exists>e'. unpaidDays e' = days_taken e' \<and> rejectedDays e' = days_taken e' \<and> days_taken e' \<noteq> 0)"
proof -
  have t: "standard (calculateTotals xs) = sum_list (map standardDays xs) \<and>
   unpaid (calculateTotals xs) = sum_list (map unpaidDays xs) \<and>
   purchase (calculateTotals xs) = sum_list (map purchaseDays xs) \<and>
   rejected (calculateTotals xs) = sum_list (map rejectedDays xs)" for xs
    by (simp add: calculateTotals_def foldl_addEntry)
  have q: "standard (totals ud) = sum_list (map standardDays (leaveEntries ud)) \<and>
      unpaid (totals ud) = sum_list (map unpaidDays (leaveEntries ud)) \<and>
      purchase (totals ud) = sum_list (map purchaseDays (leaveEntries ud)) \<and>
      rejected (totals ud) = sum_list (map rejectedDays (leaveEntries ud))"
    if qr: "queryUserAnnualLeave tza env cache initials = Inr ud"
  proof -
    define fy where "fy = fiscalYearBoundaries tza (TimeClip (now env))"
    obtain rows where rows: "userLeaveRows env initials (fiscalStart fy) (fiscalEnd fy) = Inr rows"
      using qr unfolding queryUserAnnualLeave_def Let_def fy_def
      by (cases "userLeaveRows env initials
                   (fiscalStart (fiscalYearBoundaries tza (TimeClip (now env))))
                   (fiscalEnd (fiscalYearBoundaries tza (TimeClip (now env))))") simp_all
    have "\<exists>a. ud = \<lparr>leaveEntries = rows,
        totals = (calculateTotals rows)\<lparr>totals_AOW := a\<rparr>\<rparr>"
      using qr rows unfolding queryUserAnnualLeave_def Let_def fy_def by auto
    then obtain a where "ud = \<lparr>leaveEntries = rows,
        totals = (calculateTotals rows)\<lparr>totals_AOW := a\<rparr>\<rparr>" ..
    then have "leaveEntries ud = rows" "standard (totals ud) = standard (calculateTotals rows)"
      "unpaid (totals ud) = unpaid (calculateTotals rows)"
      "purchase (totals ud) = purchase (calculateTotals rows)"
      "rejected (totals ud) = rejected (calculateTotals rows)"
      by simp_all
    then show ?thesis using t[of rows] by simp
  qed
  have s: "standardDays s \<noteq> 0 \<longrightarrow> leaveTypeIs ''standard'' s \<and> statusIs ''booked'' s"
    "leaveTypeIs ''standard'' s \<and> statusIs ''booked'' s \<longrightarrow> standardDays s = days_taken s"
    by (simp_all add: standardDays_def)
  have u: "leaveTypeIs ''unpaid'' u \<longrightarrow> unpaidDays u = days_taken u"
    "leaveTypeIs ''purchase'' p \<longrightarrow> purchaseDays p = days_taken p"
    by (simp_all add: unpaidDays_def purchaseDays_def)
  have r: "rejectedDays r \<noteq> 0 \<longrightarrow> statusIs ''rejected'' r \<and> rejection_notes r \<noteq> None"
    by (auto simp: rejectedDays_def hasRejectionNotes_def)
  have n: "leave_type n = None \<longrightarrow>
      standardDays n = 0 \<and> unpaidDays n = 0 \<and> purchaseDays n = 0 \<and> rejectedDays n = 0"
    using leave_type_None by blast
  have b: "\<exists>e'. unpaidDays e' = days_taken e' \<and> rejectedDays e' = days_taken e' \<and> days_taken e' \<noteq> 0"
    using both_totals by (intro exI[of _ "leaveOf (Some ''Unpaid'') ''Rejected'' (Some ''too late'') 1"])
      (simp add: leaveOf_def)
  show ?thesis using t[of es] q s u r n b by blast
qed

theorem totals_by_type_and_status_witness:
  "queryUserAnnualLeave 0 totalsEnv exampleCache (JString ''AB'') = Inr exampleUserDetails \<and>
   calculateTotals exampleEntries =
     \<lparr>standard = 5, unpaid = 1, purchase = 3, rejected = 3 / 2, totals_AOW = None\<rparr> \<and>
   sum_list (map standardDays exampleEntries) = 5 \<and>
   sum_list (map unpaidDays exampleEntries) = 1 \<and>
   sum_list (map purchaseDays exampleEntries) = 3 \<and>
   sum_list (map rejectedDays exampleEntries) = 3 / 2 \<and>
   leaveTypeIs ''standard'' (leaveOf (Some ''Standard'') ''Booked'' None 5) \<and>
   statusIs ''booked'' (leaveOf (Some ''Standard'') ''Booked'' None 5) \<and>
   standardDays (leaveOf (Some ''Standard'') ''Booked'' None 5) = 5 \<and>
   leaveTypeIs ''unpaid'' (leaveOf (Some ''Unpaid'') ''Rejected'' (Some ''too late'') 1) \<and>
   unpaidDays (leaveOf (Some ''Unpaid'') ''Rejected'' (Some ''too late'') 1) = 1 \<and>
   leaveTypeIs ''purchase'' (leaveOf (Some ''PURCHASE'') ''booked'' None 3) \<and>
   purchaseDays (leaveOf (Some ''PURCHASE'') ''booked'' None 3) = 3 \<and>
   rejectedDays (leaveOf (Some ''standard'') ''rejected'' (Some ''overlap'') (1 / 2)) = 1 / 2 \<and>
   statusIs ''rejected'' (leaveOf (Some ''standard'') ''rejected'' (Some ''overlap'') (1 / 2)) \<and>
   leave_type (leaveOf None ''rejected'' (Some ''no type'') 4) = None \<and>
   rejectedDays (leaveOf None ''rejected'' (Some ''no type'') 4) = 0"
proof -
  have d: "days_taken (leaveOf ty st nts days) = days" for ty st nts days
    by (simp add: leaveOf_def)
  have e: "leaveEntries exampleUserDetails = exampleEntries"
    "standard (totals exampleUserDetails) = 5" "unpaid (totals exampleUserDetails) = 1"
    "purchase (totals exampleUserDetails) = 3" "rejected (totals exampleUserDetails) = 3 / 2"
    by (simp_all add: exampleUserDetails_def)
  from totals_by_type_and_status[where es=exampleEntries and tza=0 and env=totalsEnv
      and cache=exampleCache and initials="JString ''AB''" and ud=exampleUserDetails
      and s="leaveOf (Some ''Standard'') ''Booked'' None 5"
      and u="leaveOf (Some ''Unpaid'') ''Rejected'' (Some ''too late'') 1"
      and p="leaveOf (Some ''PURCHASE'') ''booked'' None 3"
      and r="leaveOf (Some ''standard'') ''rejected'' (Some ''overlap'') (1 / 2)"
      and n="leaveOf None ''rejected'' (Some ''no type'') 4"]
  show ?thesis
    using example_user_details example_entry_kinds example_totals d e by simp
qed

section \<open>Claims about the outstanding balances list\<close>

text \<open>
  C10. \<open>OutstandingBalancesList\<close> renders the text \<open>No outstanding balances found.\<close> exactly when
  no client of the input has a \<open>total_outstanding_balance\<close> strictly greater than 0; otherwise it
  renders one card for each client with a strictly positive balance, in the order of the
  input, and no other, the due status of each bill row being \<open>computeDueStatus\<close> of that bill.
  For a bill with a valid due date, \<open>computeDueStatus\<close> returns \<open><n> day(s) overdue\<close> when the
  floored whole-day difference \<open>n\<close> from the due date to today is positive, \<open>Due in <n> day(s)\<close>
  (with \<open>n\<close> the magnitude of the difference) when it is negative, and \<open>Due today\<close> when it is
  zero; for a bill whose due date is invalid it returns \<open>Due today\<close> too.
\<close>

theorem outstanding_balances_rendered:
  "(OutstandingBalancesList toNumber Date_parse clock balances matters =
      TextElement ''No outstanding balances found.'' \<longleftrightarrow>
    (\<forall>b \<in> set balances. \<not> 0 < total_outstanding_balance b)) \<and>
   ((\<exists>b \<in> set balances. 0 < total_outstanding_balance b) \<longrightarrow>
    (\<exists>cards. OutstandingBalancesList toNumber Date_parse clock balances matters = DivElement cards \<and>
       map card_key cards = map balance_id (positiveBalances balances) \<and>
       map card_amount cards = map total_outstanding_balance (positiveBalances balances) \<and>
       (\<forall>c \<in> set cards. 0 < card_amount c) \<and>
       (\<forall>i < length cards. \<forall>j < length (outstanding_bills (positiveBalances balances ! i)).
          billrow_dueStatus (card_bills (cards ! i) ! j) =
            computeDueStatus Date_parse (clock i j)
              (outstanding_bills (positiveBalances balances ! i) ! j)))) \<and>
   (\<bar>today\<bar> \<le> maxTime \<and> Date_parse (bill_due_at bill) = Some due \<longrightarrow>
      (0 < dayDifference today due \<longrightarrow>
         computeDueStatus Date_parse today bill = dayCount (dayDifference today due) @ '' overdue'') \<and>
      (dayDifference today due < 0 \<longrightarrow>
         computeDueStatus Date_parse today bill = ''Due in '' @ dayCount (- dayDifference today due)) \<and>
      (dayDifference today due = 0 \<longrightarrow> computeDueStatus Date_parse today bill = ''Due today'')) \<and>
   (Date_parse (bill_due_at bill) = None \<longrightarrow>
      computeDueStatus Date_parse today bill = ''Due today'')"
proof -
  have a: "(\<exists>cards. OutstandingBalancesList toNumber Date_parse clock balances matters = DivElement cards \<and>
       map card_key cards = map balance_id (positiveBalances balances) \<and>
       map card_amount cards = map total_outstanding_balance (positiveBalances balances) \<and>
       (\<forall>c \<in> set cards. 0 < card_amount c) \<and>
       (\<forall>i < length cards. \<forall>j < length (outstanding_bills (positiveBalances balances ! i)).
          billrow_dueStatus (card_bills (cards ! i) ! j) =
            computeDueStatus Date_parse (clock i j)
              (outstanding_bills (positiveBalances balances ! i) ! j)))"
    if pos: "\<exists>b \<in> set balances. 0 < total_outstanding_balance b"
  proof -
    from rendered_clients[OF pos, of toNumber Date_parse clock matters]
    obtain cards where c:
      "OutstandingBalancesList toNumber Date_parse clock balances matters = DivElement cards"
      "map card_key cards = map balance_id (positiveBalances balances)"
      "map card_amount cards = map total_outstanding_balance (positiveBalances balances)"
      "\<forall>c \<in> set cards. 0 < card_amount c"
      "\<forall>i < length cards.
        cards ! i = clientCard toNumber Date_parse (clock i) matters (positiveBalances balances ! i)"
      by blast
    have "\<forall>i < length cards. \<forall>j < length (outstanding_bills (positiveBalances balances ! i)).
          billrow_dueStatus (card_bills (cards ! i) ! j) =
            computeDueStatus Date_parse (clock i j)
              (outstanding_bills (positiveBalances balances ! i) ! j)"
      using c(5) by (simp add: card_bill_status)
    then show ?thesis using c(1-4) by blast
  qed
  have b: "(0 < dayDifference today due \<longrightarrow>
         computeDueStatus Date_parse today bill = dayCount (dayDifference today due) @ '' overdue'') \<and>
      (dayDifference today due < 0 \<longrightarrow>
         computeDueStatus Date_parse today bill = ''Due in '' @ dayCount (- dayDifference today due)) \<and>
      (dayDifference today due = 0 \<longrightarrow> computeDueStatus Date_parse today bill = ''Due today'')"
    if "\<bar>today\<bar> \<le> maxTime \<and> Date_parse (bill_due_at bill) = Some due"
    using that by (simp add: computeDueStatus_valid Let_def)
  show ?thesis
    using rendered_text[of toNumber Date_parse clock balances matters] a b
      computeDueStatus_invalid[of Date_parse bill today]
    by blast
qed

theorem outstanding_balances_rendered_witness:
  "OutstandingBalancesList exampleNumber exampleParse exampleClock exampleBalances exampleMatters =
     DivElement exampleCards \<and>
   map card_key exampleCards = [2] \<and> map card_amount exampleCards = [241 / 2] \<and>
   map balance_id (positiveBalances exampleBalances) = [2] \<and>
   OutstandingBalancesList exampleNumber exampleParse exampleClock
     [exampleBalances ! 0, exampleBalances ! 2] exampleMatters =
     TextElement ''No outstanding balances found.'' \<and>
   total_outstanding_balance (exampleBalances ! 0) = 0 \<and>
   total_outstanding_balance (exampleBalances ! 2) = - 5 \<and>
   computeDueStatus exampleParse 1736937000000 (billDue 1 ''2025-01-12'') = ''3 days overdue'' \<and>
   computeDueStatus exampleParse 1736937000000 (billDue 5 ''2025-01-14'') = ''1 day overdue'' \<and>
   computeDueStatus exampleParse 1736937000000 (billDue 2 ''2025-01-16'') = ''Due in 1 day'' \<and>
   computeDueStatus exampleParse 1736937000000 (billDue 3 ''2025-01-15'') = ''Due today'' \<and>
   computeDueStatus exampleParse 1736937000000 (billDue 4 ''soon'') = ''Due today''"
proof -
  have m: "\<bar>1736937000000\<bar> \<le> maxTime" by (simp add: maxTime_def)
  have p: "\<exists>b \<in> set exampleBalances. 0 < total_outstanding_balance b"
    "positiveBalances exampleBalances = [exampleBalances ! 1]"
    "balance_id (exampleBalances ! 1) = 2"
    "total_outstanding_balance (exampleBalances ! 0) = 0"
    "total_outstanding_balance (exampleBalances ! 2) = - 5"
    by (simp_all add: exampleBalances_def positiveBalances_def)
  have z: "\<forall>b \<in> set [exampleBalances ! 0, exampleBalances ! 2]. \<not> 0 < total_outstanding_balance b"
    using p(4,5) by simp
  have c: "map card_key exampleCards = [2]" "map card_amount exampleCards = [241 / 2]"
    by (simp_all add: exampleCards_def)
  note t = outstanding_balances_rendered[where today=1736937000000 and Date_parse=exampleParse
      and toNumber=exampleNumber and clock=exampleClock and matters=exampleMatters]
  from t[where balances=exampleBalances and bill="billDue 1 ''2025-01-12''" and due=1736640000000]
  have 1: "computeDueStatus exampleParse 1736937000000 (billDue 1 ''2025-01-12'') = ''3 days overdue''"
    using m example_parse example_day_differences example_days by simp
  from t[where balances=exampleBalances and bill="billDue 5 ''2025-01-14''" and due=1736812800000]
  have 2: "computeDueStatus exampleParse 1736937000000 (billDue 5 ''2025-01-14'') = ''1 day overdue''"
    using m example_parse example_day_differences example_days by simp
  from t[where balances=exampleBalances and bill="billDue 2 ''2025-01-16''" and due=1737014400000]
  have 3: "computeDueStatus exampleParse 1736937000000 (billDue 2 ''2025-01-16'') = ''Due in 1 day''"
    using m example_parse example_day_differences example_days by simp
  from t[where balances=exampleBalances and bill="billDue 3 ''2025-01-15''" and due=1736899200000]
  have 4: "computeDueStatus exampleParse 1736937000000 (billDue 3 ''2025-01-15'') = ''Due today''"
    using m example_parse example_day_differences by simp
  from t[where balances=exampleBalances and bill="billDue 4 ''soon''"]
  have 5: "computeDueStatus exampleParse 1736937000000 (billDue 4 ''soon'') = ''Due today''"
    using example_parse by simp
  from t[where balances="[exampleBalances ! 0, exampleBalances ! 2]" and bill="billDue 4 ''soon''"]
  have 6: "OutstandingBalancesList exampleNumber exampleParse exampleClock
     [exampleBalances ! 0, exampleBalances ! 2] exampleMatters =
     TextElement ''No outstanding balances found.''"
    using z by blast
  from t[where balances=exampleBalances and bill="billDue 4 ''soon''"]
  have 7: "\<exists>cards. OutstandingBalancesList exampleNumber exampleParse exampleClock exampleBalances
       exampleMatters = DivElement cards \<and>
     map card_key cards = map balance_id (positiveBalances exampleBalances)"
    using p(1) by blast
  show ?thesis using example_rendering c p 1 2 3 4 5 6 7 by simp
qed


end
